theory Spec2Isabelle
  imports Main "HOL-Library.AList" "HOL-Library.Log_Nat" "HOL-Library.Sublist"
begin

section \<open>Common data\<close>

text \<open>
  Job ids, file-system paths and URLs are JavaScript strings; times are milliseconds on
  the clock that \<^verbatim>\<open>Date.now()\<close> reads.  A JavaScript \<^verbatim>\<open>Map\<close> keeps its keys in
  insertion order and the code iterates over some of them, so a \<^verbatim>\<open>Map\<close> is an
  association list: \<^verbatim>\<open>set\<close> is \<^const>\<open>AList.update\<close> (an existing key keeps its
  place, a new one goes to the end), \<^verbatim>\<open>delete\<close> is \<^const>\<open>AList.delete\<close>, \<^verbatim>\<open>get\<close> is
  \<^const>\<open>map_of\<close> and \<^verbatim>\<open>size\<close> is \<^const>\<open>length\<close>.
\<close>

type_synonym uuid = string
type_synonym path = string
type_synonym ms = nat

text \<open>
  What \<^verbatim>\<open>await fetch(...)\<close> gives: the call throws (network failure), or it delivers
  a response with a status and a body.  \<^verbatim>\<open>res.ok\<close> is true for the statuses 200 to 299.
\<close>

datatype fetch_result = FetchThrows string | FetchResponse nat string

definition res_ok :: "nat \<Rightarrow> bool" where
  "res_ok status = (200 \<le> status \<and> status \<le> 299)"

text \<open>\<^verbatim>\<open>x || d\<close> on an optional number: \<^verbatim>\<open>undefined\<close> and \<^verbatim>\<open>0\<close> are falsy.\<close>

definition or_default :: "nat option \<Rightarrow> nat \<Rightarrow> nat" where
  "or_default x d = (case x of None \<Rightarrow> d | Some n \<Rightarrow> if n = 0 then d else n)"

text \<open>
  The entries of \<^verbatim>\<open>PoolManager.activeJobs\<close> (lib/pool-manager.js, line 112):
  \<^verbatim>\<open>{ pool, tempDir, startTime }\<close>.  The pool object is a handle of the encoding
  substrate; the model keeps its identity as a number.
\<close>

record pool_job =
  pj_pool :: nat
  pj_tempDir :: path
  pj_startTime :: ms

section \<open>HealthMonitor (lib/health.js, lines 55 to 123)\<close>

record health_config =
  cfg_checkIntervalMs :: "nat option"
  cfg_jobTimeoutMs :: "nat option"
  cfg_maxConsecutiveFailures :: "nat option"

record health_monitor =
  checkIntervalMs :: nat
  jobTimeoutMs :: nat
  maxConsecutiveFailures :: nat
  consecutiveFailures :: nat
  healthy :: bool
  interval :: bool

text \<open>
  The constructor: \<^verbatim>\<open>(config && config.maxConsecutiveFailures) || 5\<close> and its two
  siblings; the streak starts at 0, the monitor healthy, no interval timer set.
\<close>

definition cfg_field :: "health_config option \<Rightarrow> (health_config \<Rightarrow> nat option) \<Rightarrow> nat option" where
  "cfg_field config f = (case config of None \<Rightarrow> None | Some c \<Rightarrow> f c)"

definition HealthMonitor_new :: "health_config option \<Rightarrow> health_monitor" where
  "HealthMonitor_new config =
     \<lparr> checkIntervalMs = or_default (cfg_field config cfg_checkIntervalMs) 30000,
       jobTimeoutMs = or_default (cfg_field config cfg_jobTimeoutMs) 3600000,
       maxConsecutiveFailures = or_default (cfg_field config cfg_maxConsecutiveFailures) 5,
       consecutiveFailures = 0,
       healthy = True,
       interval = False \<rparr>"

definition HealthMonitor_start :: "health_monitor \<Rightarrow> health_monitor" where
  "HealthMonitor_start hm = hm\<lparr>interval := True\<rparr>"

definition HealthMonitor_stop :: "health_monitor \<Rightarrow> health_monitor" where
  "HealthMonitor_stop hm = (if interval hm then hm\<lparr>interval := False\<rparr> else hm)"

definition isHealthy :: "health_monitor \<Rightarrow> bool" where
  "isHealthy hm = healthy hm"

text \<open>
  The reason handed to \<^verbatim>\<open>_recordFailure\<close>: \<^verbatim>\<open>`PeerTube returned ${res.status}`\<close> or
  the message of the exception that \<^verbatim>\<open>fetch\<close> threw.
\<close>

datatype reason = ReturnedStatus nat | Message string

text \<open>
  What one probe cycle sends out: the \<^verbatim>\<open>'unhealthy'\<close> event with its reason and streak
  (line 120, together with the error line of 118), and the warning of the zombie scan
  with the job id and the elapsed time (line 106).
\<close>

datatype health_event = Unhealthy reason nat | ZombieWarning uuid int

definition recordFailure :: "reason \<Rightarrow> health_monitor \<Rightarrow> health_monitor \<times> health_event list" where
  "recordFailure r hm =
     (let hm1 = hm\<lparr>consecutiveFailures := consecutiveFailures hm + 1\<rparr>
      in if consecutiveFailures hm1 \<ge> maxConsecutiveFailures hm1
         then (hm1\<lparr>healthy := False\<rparr>, [Unhealthy r (consecutiveFailures hm1)])
         else (hm1, []))"

text \<open>
  The zombie scan of \<^verbatim>\<open>_check\<close>: one warning for each active job of the pool manager
  that has run for more than twice the job timeout.  It changes nothing.
\<close>

definition zombieScan :: "ms \<Rightarrow> (uuid \<times> pool_job) list \<Rightarrow> health_monitor \<Rightarrow> health_event list" where
  "zombieScan now jobs hm =
     concat (map (\<lambda>(u, job).
        let elapsed = int now - int (pj_startTime job)
        in if elapsed > int (jobTimeoutMs hm * 2) then [ZombieWarning u elapsed] else []) jobs)"

text \<open>
  \<^verbatim>\<open>_check\<close>, one probe cycle: the answer of the reachability request, the clock and
  the pool manager's active jobs come from outside.
\<close>

definition check :: "fetch_result \<Rightarrow> ms \<Rightarrow> (uuid \<times> pool_job) list \<Rightarrow> health_monitor
    \<Rightarrow> health_monitor \<times> health_event list" where
  "check res now jobs hm =
     (let (hm1, evs) =
        (case res of
           FetchResponse status body \<Rightarrow>
             if res_ok status then (hm\<lparr>consecutiveFailures := 0, healthy := True\<rparr>, [])
             else recordFailure (ReturnedStatus status) hm
         | FetchThrows msg \<Rightarrow> recordFailure (Message msg) hm)
      in (hm1, evs @ zombieScan now jobs hm1))"

text \<open>A probe fails when the request throws or the status is not a success status.\<close>

fun probeFailed :: "fetch_result \<Rightarrow> bool" where
  "probeFailed (FetchThrows msg) = True"
| "probeFailed (FetchResponse status body) = (\<not> res_ok status)"

text \<open>A probe cycle as the interval timer sees it: answer, clock, active jobs.\<close>

type_synonym probe = "fetch_result \<times> ms \<times> (uuid \<times> pool_job) list"

fun checks :: "probe list \<Rightarrow> health_monitor \<Rightarrow> health_monitor" where
  "checks [] hm = hm"
| "checks ((res, now, jobs) # ps) hm = checks ps (fst (check res now jobs hm))"

fun isUnhealthy :: "health_event \<Rightarrow> bool" where
  "isUnhealthy (Unhealthy r n) = True"
| "isUnhealthy (ZombieWarning u t) = False"

definition unhealthyFired :: "health_event list \<Rightarrow> bool" where
  "unhealthyFired evs = (filter isUnhealthy evs \<noteq> [])"


section \<open>Timers of the JavaScript runtime\<close>

text \<open>
  \<^verbatim>\<open>setTimeout\<close> and \<^verbatim>\<open>clearTimeout\<close> on a virtual clock.  A pending timer has the
  handle that \<^verbatim>\<open>setTimeout\<close> returned, the time at which it is due and what its
  callback does.  The code arms two kinds of timer: the closure of the watchdog,
  \<^verbatim>\<open>() => onTimeout(jobUUID)\<close>, and the hard timeout of the shutdown, which calls
  \<^verbatim>\<open>process.exit(1)\<close>.  When a timer fires it leaves the pending list and its callback
  is appended, with the time, to the list of the callbacks that ran.
\<close>

datatype 'cb action = CallOnTimeout 'cb uuid | ForceExit

record 'cb timer =
  handle :: nat
  due :: ms
  action :: "'cb action"

record 'cb runtime =
  clock :: ms
  timers :: "'cb timer list"
  nextHandle :: nat
  fired :: "(ms \<times> 'cb action) list"

definition newRuntime :: "'cb runtime" where
  "newRuntime = \<lparr> clock = 0, timers = [], nextHandle = 0, fired = [] \<rparr>"

text \<open>
  Node replaces a delay that is below 1 or above \<^verbatim>\<open>2^31 - 1\<close> by 1 millisecond.
\<close>

definition timerDelay :: "nat \<Rightarrow> nat" where
  "timerDelay delay = (if 1 \<le> delay \<and> delay \<le> 2147483647 then delay else 1)"

definition setTimeout :: "'cb action \<Rightarrow> nat \<Rightarrow> 'cb runtime \<Rightarrow> nat \<times> 'cb runtime" where
  "setTimeout a delay rt =
     (nextHandle rt,
      rt\<lparr> timers := timers rt @
                [\<lparr> handle = nextHandle rt, due = clock rt + timerDelay delay, action = a \<rparr>],
          nextHandle := nextHandle rt + 1 \<rparr>)"

definition clearTimeout :: "nat \<Rightarrow> 'cb runtime \<Rightarrow> 'cb runtime" where
  "clearTimeout h rt = rt\<lparr> timers := filter (\<lambda>t. handle t \<noteq> h) (timers rt) \<rparr>"

text \<open>
  The clock moves on by \<open>dt\<close> milliseconds: every pending timer that is due by then
  fires, the earliest first, timers due at the same time in the order they were set.
\<close>

definition advance :: "ms \<Rightarrow> 'cb runtime \<Rightarrow> 'cb runtime" where
  "advance dt rt =
     (let t = clock rt + dt;
          dueNow = sort_key due (filter (\<lambda>x. due x \<le> t) (timers rt))
      in rt\<lparr> clock := t,
              timers := filter (\<lambda>x. \<not> due x \<le> t) (timers rt),
              fired := fired rt @ map (\<lambda>x. (due x, action x)) dueNow \<rparr>)"

section \<open>JobWatchdog (lib/health.js, lines 5 to 53)\<close>

record 'cb entry =
  w_timer :: nat
  w_onTimeout :: 'cb
  w_startTime :: ms

record 'cb watchdog =
  timeoutMs :: ms
  jobs :: "(uuid \<times> 'cb entry) list"

text \<open>The constructor: \<^verbatim>\<open>this.timeoutMs = timeoutMs || 3600000\<close>, no job watched.\<close>

definition JobWatchdog_new :: "nat option \<Rightarrow> 'cb watchdog" where
  "JobWatchdog_new t = \<lparr> timeoutMs = or_default t 3600000, jobs = [] \<rparr>"

text \<open>
  \<^verbatim>\<open>watch\<close> (lines 11 to 18) sets a timer and stores the entry under the job id.  It
  does not look whether the id has an entry already, and it clears no timer.
\<close>

definition watch :: "uuid \<Rightarrow> 'cb \<Rightarrow> 'cb watchdog \<times> 'cb runtime \<Rightarrow> 'cb watchdog \<times> 'cb runtime" where
  "watch jobUUID onTimeout = (\<lambda>(wd, rt).
     let (h, rt1) = setTimeout (CallOnTimeout onTimeout jobUUID) (timeoutMs wd) rt
     in (wd\<lparr> jobs := AList.update jobUUID
                 \<lparr> w_timer = h, w_onTimeout = onTimeout, w_startTime = clock rt \<rparr> (jobs wd) \<rparr>,
         rt1))"

text \<open>
  \<^verbatim>\<open>kick\<close> (lines 20 to 30): nothing for an unknown id; otherwise the entry's timer is
  cleared and a new one is set, the full timeout from now, and stored in the entry.
\<close>

definition kick :: "uuid \<Rightarrow> 'cb watchdog \<times> 'cb runtime \<Rightarrow> 'cb watchdog \<times> 'cb runtime" where
  "kick jobUUID = (\<lambda>(wd, rt).
     case map_of (jobs wd) jobUUID of
       None \<Rightarrow> (wd, rt)
     | Some e \<Rightarrow>
         let rt1 = clearTimeout (w_timer e) rt;
             (h, rt2) = setTimeout (CallOnTimeout (w_onTimeout e) jobUUID) (timeoutMs wd) rt1
         in (wd\<lparr> jobs := AList.update jobUUID (e\<lparr> w_timer := h \<rparr>) (jobs wd) \<rparr>, rt2))"

text \<open>\<^verbatim>\<open>clear\<close> (lines 32 to 38): nothing for an unknown id; otherwise the entry's timer
  is cleared and the entry deleted.\<close>

definition clear :: "uuid \<Rightarrow> 'cb watchdog \<times> 'cb runtime \<Rightarrow> 'cb watchdog \<times> 'cb runtime" where
  "clear jobUUID = (\<lambda>(wd, rt).
     case map_of (jobs wd) jobUUID of
       None \<Rightarrow> (wd, rt)
     | Some e \<Rightarrow> (wd\<lparr> jobs := AList.delete jobUUID (jobs wd) \<rparr>, clearTimeout (w_timer e) rt))"

text \<open>\<^verbatim>\<open>clearAll\<close> (lines 40 to 46): the timer of every entry is cleared, then the map.\<close>

definition clearAll :: "'cb watchdog \<times> 'cb runtime \<Rightarrow> 'cb watchdog \<times> 'cb runtime" where
  "clearAll = (\<lambda>(wd, rt).
     (wd\<lparr> jobs := [] \<rparr>, fold (\<lambda>(u, e). clearTimeout (w_timer e)) (jobs wd) rt))"

text \<open>\<^verbatim>\<open>elapsed\<close> (lines 48 to 52): \<open>-1\<close> for an unknown id.\<close>

definition elapsed :: "uuid \<Rightarrow> 'cb watchdog \<times> 'cb runtime \<Rightarrow> int" where
  "elapsed jobUUID = (\<lambda>(wd, rt).
     case map_of (jobs wd) jobUUID of
       None \<Rightarrow> - 1
     | Some e \<Rightarrow> int (clock rt) - int (w_startTime e))"

text \<open>The pending timers whose callback is the watchdog's timeout for a given job id,
  and the times at which that timeout was delivered.\<close>

fun forJob :: "uuid \<Rightarrow> 'cb action \<Rightarrow> bool" where
  "forJob u (CallOnTimeout cb v) = (u = v)"
| "forJob u ForceExit = False"

definition timersFor :: "uuid \<Rightarrow> 'cb runtime \<Rightarrow> 'cb timer list" where
  "timersFor u rt = filter (\<lambda>t. forJob u (action t)) (timers rt)"

definition timeoutsDelivered :: "uuid \<Rightarrow> 'cb runtime \<Rightarrow> ms list" where
  "timeoutsDelivered u rt = map fst (filter (\<lambda>(t, a). forJob u a) (fired rt))"

section \<open>Errors\<close>

text \<open>
  Every \<^verbatim>\<open>throw new Error(...)\<close> of the code is a constructor that carries what the
  message interpolates; \<open>Thrown\<close> is an exception raised inside an external call (the
  network, the file system, the encoding substrate) with its message.
\<close>

datatype request =
    Unregister
  | RequestJob
  | AcceptJob uuid
  | UpdateJob uuid nat
  | PostSuccess uuid path
  | PostError uuid string
  | AbortJob uuid

datatype error =
    NoJobToken uuid
  | HttpFailed request nat string
  | UnsupportedJobType string
  | PayloadInputMissing string
  | PayloadOutputMissing string
  | DownloadFailed nat
  | PoolNotReady string
  | JobTimedOut ms
  | OutputFileMissing path
  | OutputFileEmpty path
  | FfprobeFailed path string
  | NoMediaStreams path
  | Thrown string

text \<open>
  \<^verbatim>\<open>err.message\<close>, which the failure path sends to the job queue.  The numbers that
  the code interpolates stay symbolic: the message of a structured error is its name.
\<close>

fun message :: "error \<Rightarrow> string" where
  "message (NoJobToken u) = ''No job token for job '' @ u"
| "message (HttpFailed r status body) = ''request failed: '' @ body"
| "message (UnsupportedJobType t) = ''Unsupported job type: '' @ t"
| "message (PayloadInputMissing t) = ''payload.input missing for job type '' @ t"
| "message (PayloadOutputMissing t) = ''payload.output missing for job type '' @ t"
| "message (DownloadFailed status) = ''Download failed''"
| "message (PoolNotReady d) = ''Pool not ready - no segments found in drive '' @ d"
| "message (JobTimedOut t) = ''Job timed out''"
| "message (OutputFileMissing p) = ''Output file missing: '' @ p"
| "message (OutputFileEmpty p) = ''Output file is empty: '' @ p"
| "message (FfprobeFailed p m) = ''ffprobe failed on '' @ p @ '': '' @ m"
| "message (NoMediaStreams p) = ''No media streams found in '' @ p"
| "message (Thrown m) = m"

section \<open>RunnerClient (lib/runner-client.js)\<close>

record runner_client =
  runnerToken :: "string option"
  jobTokens :: "(uuid \<times> string) list"

definition RunnerClient_new :: runner_client where
  "RunnerClient_new = \<lparr> runnerToken = None, jobTokens = [] \<rparr>"

text \<open>
  \<^verbatim>\<open>_jobToken\<close> (lines 22 to 26): \<^verbatim>\<open>if (!token) throw\<close>, and the empty string is
  falsy as \<^verbatim>\<open>undefined\<close> is.
\<close>

definition jobToken :: "uuid \<Rightarrow> runner_client \<Rightarrow> error + string" where
  "jobToken jobUUID c =
     (case map_of (jobTokens c) jobUUID of
        None \<Rightarrow> Inl (NoJobToken jobUUID)
      | Some token \<Rightarrow> if token = [] then Inl (NoJobToken jobUUID) else Inr token)"

text \<open>
  A call of the client gives its result (the error thrown, or the value), the client
  afterwards and the requests it sent over the network, in order.
\<close>

type_synonym 'a client_result = "(error + 'a) \<times> runner_client \<times> request list"

text \<open>
  The tail that \<^verbatim>\<open>updateJob\<close>, \<^verbatim>\<open>postSuccess\<close>, \<^verbatim>\<open>postError\<close> and \<^verbatim>\<open>abortJob\<close>
  share: the request goes out; an exception of \<^verbatim>\<open>fetch\<close> propagates; a status that is
  not a success throws the error with status and body; otherwise \<open>done\<close> is applied
  to the client.
\<close>

definition send :: "request \<Rightarrow> fetch_result \<Rightarrow> (runner_client \<Rightarrow> runner_client) \<Rightarrow> runner_client
    \<Rightarrow> unit client_result" where
  "send req res done c =
     (case res of
        FetchThrows m \<Rightarrow> (Inl (Thrown m), c, [req])
      | FetchResponse status body \<Rightarrow>
          if \<not> res_ok status then (Inl (HttpFailed req status body), c, [req])
          else (Inr (), done c, [req]))"

definition deleteToken :: "uuid \<Rightarrow> runner_client \<Rightarrow> runner_client" where
  "deleteToken jobUUID c = c\<lparr> jobTokens := AList.delete jobUUID (jobTokens c) \<rparr>"

text \<open>
  \<^verbatim>\<open>acceptJob\<close> (lines 98 to 119).  The body of a success response is read as
  \<^verbatim>\<open>data.job.jobToken\<close>; a body that does not parse is an exception of \<^verbatim>\<open>res.json()\<close>,
  which is a \<open>FetchThrows\<close> here.
\<close>

definition acceptJob :: "uuid \<Rightarrow> fetch_result \<Rightarrow> runner_client \<Rightarrow> unit client_result" where
  "acceptJob jobUUID res c =
     (case res of
        FetchThrows m \<Rightarrow> (Inl (Thrown m), c, [AcceptJob jobUUID])
      | FetchResponse status body \<Rightarrow>
          if \<not> res_ok status then (Inl (HttpFailed (AcceptJob jobUUID) status body), c, [AcceptJob jobUUID])
          else (Inr (), c\<lparr> jobTokens := AList.update jobUUID body (jobTokens c) \<rparr>, [AcceptJob jobUUID]))"

text \<open>\<^verbatim>\<open>updateJob\<close> (lines 121 to 143): the token is read while the body is built,
  before \<^verbatim>\<open>fetch\<close>.\<close>

definition updateJob :: "uuid \<Rightarrow> nat \<Rightarrow> fetch_result \<Rightarrow> runner_client \<Rightarrow> unit client_result" where
  "updateJob jobUUID progress res c =
     (case jobToken jobUUID c of
        Inl e \<Rightarrow> (Inl e, c, [])
      | Inr token \<Rightarrow> send (UpdateJob jobUUID progress) res (\<lambda>c. c) c)"

text \<open>\<^verbatim>\<open>postSuccess\<close> (lines 145 to 175): token, then the artifact is read from disk
  (\<open>readFile\<close> is the message of the exception if that fails), then the upload.\<close>

definition postSuccess :: "uuid \<Rightarrow> path \<Rightarrow> string option \<Rightarrow> fetch_result \<Rightarrow> runner_client
    \<Rightarrow> unit client_result" where
  "postSuccess jobUUID outputFilePath readFile res c =
     (case jobToken jobUUID c of
        Inl e \<Rightarrow> (Inl e, c, [])
      | Inr token \<Rightarrow>
          (case readFile of
             Some m \<Rightarrow> (Inl (Thrown m), c, [])
           | None \<Rightarrow> send (PostSuccess jobUUID outputFilePath) res (deleteToken jobUUID) c))"

text \<open>\<^verbatim>\<open>postError\<close> (lines 177 to 202).\<close>

definition postError :: "uuid \<Rightarrow> string \<Rightarrow> fetch_result \<Rightarrow> runner_client \<Rightarrow> unit client_result" where
  "postError jobUUID msg res c =
     (case jobToken jobUUID c of
        Inl e \<Rightarrow> (Inl e, c, [])
      | Inr token \<Rightarrow> send (PostError jobUUID msg) res (deleteToken jobUUID) c)"

text \<open>\<^verbatim>\<open>abortJob\<close> (lines 204 to 228).\<close>

definition abortJob :: "uuid \<Rightarrow> fetch_result \<Rightarrow> runner_client \<Rightarrow> unit client_result" where
  "abortJob jobUUID res c =
     (case jobToken jobUUID c of
        Inl e \<Rightarrow> (Inl e, c, [])
      | Inr token \<Rightarrow> send (AbortJob jobUUID) res (deleteToken jobUUID) c)"

text \<open>\<^verbatim>\<open>unregister\<close> (lines 55 to 75): on success the runner token is forgotten.\<close>

definition unregister :: "fetch_result \<Rightarrow> runner_client \<Rightarrow> unit client_result" where
  "unregister res c = send Unregister res (\<lambda>c. c\<lparr> runnerToken := None \<rparr>) c"

text \<open>
  A sequence of calls on one client, each with the answer the network gives it.  The
  result lists, call by call, whether the call returned (\<open>None\<close>) or what it threw.
\<close>

datatype call =
    CallAccept uuid fetch_result
  | CallUpdate uuid nat fetch_result
  | CallSuccess uuid path "string option" fetch_result
  | CallError uuid string fetch_result
  | CallAbort uuid fetch_result

fun perform :: "call \<Rightarrow> runner_client \<Rightarrow> unit client_result" where
  "perform (CallAccept u res) c = acceptJob u res c"
| "perform (CallUpdate u p res) c = updateJob u p res c"
| "perform (CallSuccess u f rd res) c = postSuccess u f rd res c"
| "perform (CallError u m res) c = postError u m res c"
| "perform (CallAbort u res) c = abortJob u res c"

fun performAll :: "call list \<Rightarrow> runner_client \<Rightarrow> (error + unit) list \<times> runner_client" where
  "performAll [] c = ([], c)"
| "performAll (x # xs) c =
     (let (r, c1, reqs) = perform x c; (rs, c2) = performAll xs c1 in (r # rs, c2))"





section \<open>Job translation (lib/job-translator.js)\<close>

definition SUPPORTED_TYPES :: "string list" where
  "SUPPORTED_TYPES =
     [''vod-web-video-transcoding'', ''vod-hls-transcoding'', ''vod-audio-merge-transcoding'']"

definition isSupported :: "string \<Rightarrow> bool" where
  "isSupported jobType = (jobType \<in> set SUPPORTED_TYPES)"

definition TYPE_MAP :: "string \<Rightarrow> string" where
  "TYPE_MAP jobType =
     (if jobType = ''vod-web-video-transcoding'' then ''vod-web''
      else if jobType = ''vod-hls-transcoding'' then ''vod-hls''
      else ''audio-merge'')"

definition FORMAT_MAP :: "string \<Rightarrow> string" where
  "FORMAT_MAP t = (if t = ''vod-hls'' then ''hls'' else ''mp4'')"

record job_input =
  videoFileUrl :: "string option"
  audioFileUrl :: "string option"

record job_output =
  resolution :: "nat option"
  fps :: "nat option"

record payload =
  p_input :: "job_input option"
  p_output :: "job_output option"

text \<open>
  The part of the configuration that the bridge hands to the translator and to the pool
  manager (\<^verbatim>\<open>config.supernovao\<close>); every option may be absent.
\<close>

record supernovao_config =
  storage :: "string option"
  cfg_bitrate :: "string option"
  cfg_level :: "string option"
  segmentTimeoutMs :: "nat option"

text \<open>
  The workflow descriptor.  \<^verbatim>\<open>translateJob\<close> builds it without \<^verbatim>\<open>jobUUID\<close> and
  \<^verbatim>\<open>localInputPath\<close>; the bridge assigns both before the pool manager reads them.  In
  the record they are empty until then.
\<close>

record workflow =
  wf_type :: string
  inputUrl :: "string option"
  wf_resolution :: "nat option"
  wf_fps :: "nat option"
  bitrate :: string
  level :: string
  outputFormat :: string
  jobUUID :: uuid
  localInputPath :: path

text \<open>\<^verbatim>\<open>x || d\<close> on an optional string: \<^verbatim>\<open>undefined\<close> and the empty string are falsy.\<close>

definition or_string :: "string option \<Rightarrow> string \<Rightarrow> string" where
  "or_string x d = (case x of None \<Rightarrow> d | Some s \<Rightarrow> if s = [] then d else s)"

definition translateJob :: "string \<Rightarrow> payload \<Rightarrow> supernovao_config \<Rightarrow> error + workflow" where
  "translateJob jobType p config =
     (if \<not> isSupported jobType then Inl (UnsupportedJobType jobType)
      else case p_input p of
        None \<Rightarrow> Inl (PayloadInputMissing jobType)
      | Some i \<Rightarrow>
         (case p_output p of
            None \<Rightarrow> Inl (PayloadOutputMissing jobType)
          | Some out \<Rightarrow>
              Inr \<lparr> wf_type = TYPE_MAP jobType,
                    inputUrl = (if jobType = ''vod-audio-merge-transcoding''
                                then audioFileUrl i else videoFileUrl i),
                    wf_resolution = resolution out,
                    wf_fps = fps out,
                    bitrate = or_string (cfg_bitrate config) ''200000'',
                    level = or_string (cfg_level config) ''5.1'',
                    outputFormat = FORMAT_MAP (TYPE_MAP jobType),
                    jobUUID = [],
                    localInputPath = [] \<rparr>))"

section \<open>Result hand-off (lib/result-assembler.js)\<close>

text \<open>
  What \<^verbatim>\<open>prepareResult\<close> finds outside: whether the artifact exists and can be read
  (\<^verbatim>\<open>fs.promises.access\<close> with \<^verbatim>\<open>R_OK\<close> rejects unless it is readable), what
  \<^verbatim>\<open>fs.promises.stat\<close> gives (an exception, or the size) and what \<^verbatim>\<open>ffprobe\<close> hands
  to its callback: an error, or the metadata.  The code tests the metadata and its
  \<^verbatim>\<open>streams\<close> for absence, so both are optional here.  It reads
  \<^verbatim>\<open>metadata.format.duration\<close> untested (line 34); the probe of fluent-ffmpeg always
  delivers a \<^verbatim>\<open>format\<close> object with the streams, so that field is not optional.
\<close>

datatype file_status = Missing | Unreadable | Readable

record metadata =
  streams :: "string list option"
  format_duration :: "string option"

datatype ffprobe_result = FfprobeError string | FfprobeData "metadata option"

record artifact =
  a_file :: file_status
  a_stat :: "string + nat"
  a_ffprobe :: ffprobe_result

text \<open>\<^verbatim>\<open>probeFile\<close> (lines 6 to 17).\<close>

definition probeFile :: "path \<Rightarrow> ffprobe_result \<Rightarrow> error + metadata" where
  "probeFile filePath r =
     (case r of
        FfprobeError m \<Rightarrow> Inl (FfprobeFailed filePath m)
      | FfprobeData None \<Rightarrow> Inl (NoMediaStreams filePath)
      | FfprobeData (Some md) \<Rightarrow>
          (case streams md of
             None \<Rightarrow> Inl (NoMediaStreams filePath)
           | Some ss \<Rightarrow> if length ss = 0 then Inl (NoMediaStreams filePath) else Inr md))"


record result =
  videoFilePath :: path
  r_type :: string

text \<open>\<^verbatim>\<open>prepareResult\<close> (lines 19 to 41).\<close>

definition prepareResult :: "path \<Rightarrow> workflow \<Rightarrow> artifact \<Rightarrow> error + result" where
  "prepareResult outputPath workflow a =
     (if a_file a \<noteq> Readable then Inl (OutputFileMissing outputPath)
      else case a_stat a of
        Inl m \<Rightarrow> Inl (Thrown m)
      | Inr sz \<Rightarrow>
          if sz = 0 then Inl (OutputFileEmpty outputPath)
          else (case probeFile outputPath (a_ffprobe a) of
                  Inl e \<Rightarrow> Inl e
                | Inr md \<Rightarrow>
                    if wf_type workflow = ''vod-hls''
                    then Inr \<lparr> videoFilePath = outputPath, r_type = ''hls'' \<rparr>
                    else Inr \<lparr> videoFilePath = outputPath, r_type = ''web-video'' \<rparr>))"

text \<open>\<^verbatim>\<open>uploadResult\<close> (lines 43 to 48) is \<^verbatim>\<open>postSuccess\<close> on the artifact's path.\<close>

definition uploadResult :: "uuid \<Rightarrow> result \<Rightarrow> string option \<Rightarrow> fetch_result \<Rightarrow> runner_client
    \<Rightarrow> unit client_result" where
  "uploadResult u r readFile res c = postSuccess u (videoFilePath r) readFile res c"

text \<open>
  \<^verbatim>\<open>cleanupTemp\<close> (lines 50 to 58) on the set of temporary directories that exist:
  \<^verbatim>\<open>fs.promises.rm\<close> with \<^verbatim>\<open>recursive\<close> and \<^verbatim>\<open>force\<close> removes the directory, or it
  throws (\<open>rmOk\<close> is false) and the exception is swallowed.
\<close>

definition rm :: "path \<Rightarrow> bool \<Rightarrow> path set \<Rightarrow> path set" where
  "rm dir rmOk dirs = (if rmOk then dirs - {dir} else dirs)"

definition cleanupTemp :: "path \<Rightarrow> bool \<Rightarrow> path set \<Rightarrow> path set" where
  "cleanupTemp dir rmOk dirs = rm dir rmOk dirs"

text \<open>
  \<^verbatim>\<open>downloadInput\<close> (lib/job-translator.js): the request throws, or the status is not a
  success, or writing the body to the file throws (\<open>writeFile\<close> is the message), or the
  input is on disk.
\<close>

definition downloadInput :: "fetch_result \<Rightarrow> string option \<Rightarrow> error option" where
  "downloadInput res writeFile =
     (case res of
        FetchThrows m \<Rightarrow> Some (Thrown m)
      | FetchResponse status body \<Rightarrow>
          if \<not> res_ok status then Some (DownloadFailed status)
          else (case writeFile of Some m \<Rightarrow> Some (Thrown m) | None \<Rightarrow> None))"

section \<open>Double-precision arithmetic\<close>

text \<open>
  JavaScript numbers are IEEE 754 doubles, and the progress formula of the pool manager
  divides and multiplies them.  \<open>double q\<close> is the double nearest to the rational \<open>q\<close>,
  ties to the even significand.  \<open>bitlen\<close> is the number of binary digits of a positive
  integer, and \<open>binade q\<close> is the \<open>b\<close> with \<open>2 ^ b \<le> q < 2 ^ (b + 1)\<close> for a positive
  \<open>q\<close>; the significand of \<open>double q\<close> is \<open>\<bar>q\<bar> / 2 ^ (b - 52)\<close> rounded to an integer,
  with the binade \<open>b\<close> of \<open>\<bar>q\<bar>\<close>.  The exponent is unbounded here; the quotients and
  products of the formula are far from the range where doubles overflow or lose
  precision near zero.
\<close>

definition roundEven :: "rat \<Rightarrow> int" where
  "roundEven q =
     (let f = \<lfloor>q\<rfloor>; r = q - of_int f
      in if r < 1 / 2 then f else if 1 / 2 < r then f + 1 else if even f then f else f + 1)"

definition binade :: "rat \<Rightarrow> int" where
  "binade q =
     (let (a, b) = quotient_of q;
          l = bitlen a - bitlen b
      in if 2 powi l \<le> q then l else l - 1)"

definition double :: "rat \<Rightarrow> rat" where
  "double q =
     (if q = 0 then 0
      else let m = \<bar>q\<bar>; e = binade m - 52
           in sgn q * of_int (roundEven (m / 2 powi e)) * 2 powi e)"

section \<open>PoolManager (lib/pool-manager.js)\<close>

record pool_manager =
  pm_config :: supernovao_config
  pm_activeJobs :: "(uuid \<times> pool_job) list"
  driveId :: string
  swarm :: bool
  poolKey :: "string option"

definition PoolManager_new :: "supernovao_config \<Rightarrow> pool_manager" where
  "PoolManager_new config =
     \<lparr> pm_config = config, pm_activeJobs = [], driveId = ''ptsn/bridge'', swarm = False,
       poolKey = None \<rparr>"

definition PoolManager_start :: "pool_manager \<Rightarrow> pool_manager" where
  "PoolManager_start pm = pm\<lparr> swarm := True \<rparr>"

text \<open>
  What one run of \<^verbatim>\<open>processJob\<close> meets in the file system and the encoding substrate,
  call by call.  A call that returns nothing useful is \<open>None\<close> when it succeeds and
  \<open>Some\<close> of the exception's message when it throws; a call with a result is a sum.
  \<open>createPoolDrive\<close> gives the drive key in hex, \<open>segmentation\<close> the number of segment
  paths, \<open>loadConfig\<close> the pool's \<^verbatim>\<open>ready\<close> flag and the length of its \<^verbatim>\<open>segments\<close>.
  \<open>segmentsComplete\<close> lists what \<^verbatim>\<open>pool.segmentsComplete.length\<close> is at each tick of
  the 2000 ms interval that fires while the run waits; \<open>finalized\<close> is the time after
  the start of the wait at which the pool emits \<^verbatim>\<open>'finalized'\<close>, with the drive path it
  carries, or \<open>None\<close> if it never does.
\<close>

record pool_env =
  mkdtempPool :: "string + path"
  poolHandle :: nat
  createPoolDrive :: "string + string"
  writeSource :: "string option"
  extractMetadata :: "string option"
  segmentation :: "string + nat"
  demuxTracks :: "string option"
  putSegments :: "string option"
  putTracks :: "string option"
  loadConfig :: "string + bool \<times> nat"
  launchPool :: "string option"
  segmentsComplete :: "nat list"
  finalized :: "(ms \<times> path) option"
  readOutput :: "string option"
  destroyPool :: "string option"

record pool_result =
  outputPath :: path
  pr_tempDir :: path

text \<open>
  The body of the \<^verbatim>\<open>try\<close> block is a chain of steps over the pool manager: each gives
  the result so far (an error ends the chain), the progress values handed to
  \<^verbatim>\<open>onProgress\<close> in order, and the pool manager.
\<close>

type_synonym 'a run = "pool_manager \<Rightarrow> (error + 'a) \<times> nat list \<times> pool_manager"

definition emit :: "nat \<Rightarrow> 'a run \<Rightarrow> 'a run" where
  "emit p k pm = (let (r, ps, pm1) = k pm in (r, p # ps, pm1))"

definition emits :: "nat list \<Rightarrow> 'a run \<Rightarrow> 'a run" where
  "emits qs k pm = (let (r, ps, pm1) = k pm in (r, qs @ ps, pm1))"

definition throw :: "error \<Rightarrow> 'a run" where
  "throw e pm = (Inl e, [], pm)"

definition external :: "string option \<Rightarrow> 'a run \<Rightarrow> 'a run" where
  "external outcome k = (case outcome of Some m \<Rightarrow> throw (Thrown m) | None \<Rightarrow> k)"

definition modify :: "(pool_manager \<Rightarrow> pool_manager) \<Rightarrow> 'a run \<Rightarrow> 'a run" where
  "modify f k pm = k (f pm)"

definition finish :: "'a \<Rightarrow> 'a run" where
  "finish x pm = (Inr x, [], pm)"

text \<open>
  The interval callback (lines 116 to 122):
  \<^verbatim>\<open>10 + Math.floor((done / totalSegs) * 75)\<close>, capped at 85, and nothing when the pool
  has no segments.  The division and the multiplication round to doubles.
\<close>

definition scaled :: "nat \<Rightarrow> nat \<Rightarrow> int" where
  "scaled done totalSegs = \<lfloor>double (double (of_nat done / of_nat totalSegs) * 75)\<rfloor>"

definition tick :: "nat \<Rightarrow> nat \<Rightarrow> nat list" where
  "tick totalSegs done =
     (if totalSegs > 0 then [nat (min (10 + scaled done totalSegs) 85)] else [])"

text \<open>
  The wait for \<^verbatim>\<open>'finalized'\<close> (lines 125 to 136) races the event against a timer of
  \<^verbatim>\<open>this.config.segmentTimeoutMs || 600000\<close> milliseconds: the promise resolves with the
  drive path if the event comes no later than the timer fires, and rejects with the
  timeout error otherwise.
\<close>

definition pipelineTimeout :: "supernovao_config \<Rightarrow> ms" where
  "pipelineTimeout config = or_default (segmentTimeoutMs config) 600000"

definition awaitFinalized :: "supernovao_config \<Rightarrow> (ms \<times> path) option \<Rightarrow> error + path" where
  "awaitFinalized config f =
     (case f of
        None \<Rightarrow> Inl (JobTimedOut (pipelineTimeout config))
      | Some (t, outputDrivePath) \<Rightarrow>
          if t \<le> timerDelay (pipelineTimeout config) then Inr outputDrivePath
          else Inl (JobTimedOut (pipelineTimeout config)))"

text \<open>Lines 138 to 157: after the wait.\<close>

definition handOff :: "pool_env \<Rightarrow> path \<Rightarrow> pool_result run" where
  "handOff env tmp =
     emit 95
       (external (readOutput env)
         (emit 100
           (external (destroyPool env)
             (finish \<lparr> outputPath = tmp @ ''/output.mp4'', pr_tempDir = tmp \<rparr>))))"

text \<open>Lines 112 to 136: the job is entered in \<^verbatim>\<open>activeJobs\<close>, the interval ticks while
  the run waits, and the wait ends with the event or the timeout.\<close>

definition monitor :: "pool_env \<Rightarrow> uuid \<Rightarrow> ms \<Rightarrow> nat \<Rightarrow> path \<Rightarrow> pool_result run" where
  "monitor env jobKey now totalSegs tmp =
     modify (\<lambda>pm. pm\<lparr> pm_activeJobs := AList.update jobKey
                 \<lparr> pj_pool = poolHandle env, pj_tempDir = tmp, pj_startTime = now \<rparr>
                 (pm_activeJobs pm) \<rparr>)
       (emits (concat (map (tick totalSegs) (segmentsComplete env)))
         (\<lambda>pm. case awaitFinalized (pm_config pm) (finalized env) of
                 Inl e \<Rightarrow> throw e pm
               | Inr outputDrivePath \<Rightarrow> handOff env tmp pm))"

text \<open>Lines 101 to 110: the configuration is loaded from the drive and the pool is
  launched, unless it is not ready.\<close>

definition loadAndLaunch :: "pool_env \<Rightarrow> uuid \<Rightarrow> ms \<Rightarrow> path \<Rightarrow> pool_result run" where
  "loadAndLaunch env jobKey now tmp pm =
     (case loadConfig env of
        Inl m \<Rightarrow> throw (Thrown m) pm
      | Inr (ready, segs) \<Rightarrow>
          if \<not> ready then throw (PoolNotReady (driveId pm)) pm
          else external (launchPool env) (monitor env jobKey now segs tmp) pm)"

text \<open>Lines 80 to 99: segmentation, demultiplexing and the two manifests.\<close>

definition segmentAndDemux :: "pool_env \<Rightarrow> uuid \<Rightarrow> ms \<Rightarrow> path \<Rightarrow> pool_result run" where
  "segmentAndDemux env jobKey now tmp =
     (case segmentation env of
        Inl m \<Rightarrow> throw (Thrown m)
      | Inr segPaths \<Rightarrow>
          emit 8
            (external (demuxTracks env)
              (emit 10
                (external (putSegments env)
                  (external (putTracks env)
                    (loadAndLaunch env jobKey now tmp))))))"

text \<open>Lines 59 to 78: the first progress report, the pool and its drive, the source and
  the metadata.\<close>

definition submit :: "pool_env \<Rightarrow> uuid \<Rightarrow> ms \<Rightarrow> path \<Rightarrow> pool_result run" where
  "submit env jobKey now tmp =
     emit 0
       (case createPoolDrive env of
          Inl m \<Rightarrow> throw (Thrown m)
        | Inr key \<Rightarrow>
            modify (\<lambda>pm. pm\<lparr> poolKey := Some key \<rparr>)
              (external (writeSource env)
                (external (extractMetadata env)
                  (emit 2 (segmentAndDemux env jobKey now tmp)))))"

text \<open>
  \<^verbatim>\<open>processJob\<close> (lines 51 to 165) on the pool manager and the set of temporary
  directories that exist.  The directory is made before the \<^verbatim>\<open>try\<close>; the \<^verbatim>\<open>catch\<close>
  rethrows; the \<^verbatim>\<open>finally\<close> destroys the pool, swallowing what that throws, and
  deletes the job from \<^verbatim>\<open>activeJobs\<close>.  Nothing here removes the directory.
\<close>

definition PoolManager_processJob :: "pool_env \<Rightarrow> workflow \<Rightarrow> ms \<Rightarrow> pool_manager \<times> path set
    \<Rightarrow> (error + pool_result) \<times> nat list \<times> pool_manager \<times> path set" where
  "PoolManager_processJob env workflow now = (\<lambda>(pm, dirs).
     case mkdtempPool env of
       Inl m \<Rightarrow> (Inl (Thrown m), [], pm, dirs)
     | Inr tmp \<Rightarrow>
         let (r, ps, pm1) = submit env (jobUUID workflow) now tmp pm
         in (r, ps,
             pm1\<lparr> pm_activeJobs := AList.delete (jobUUID workflow) (pm_activeJobs pm1) \<rparr>,
             insert tmp dirs))"

text \<open>
  \<^verbatim>\<open>cancelJob\<close> (lines 167 to 178): nothing for an id that is not in \<^verbatim>\<open>activeJobs\<close>;
  otherwise the pool is destroyed and the job's directory removed, both with their
  exceptions swallowed, and the entry deleted.
\<close>

definition cancelJob :: "uuid \<Rightarrow> bool \<Rightarrow> pool_manager \<times> path set \<Rightarrow> pool_manager \<times> path set" where
  "cancelJob u rmOk = (\<lambda>(pm, dirs).
     case map_of (pm_activeJobs pm) u of
       None \<Rightarrow> (pm, dirs)
     | Some job \<Rightarrow>
         (pm\<lparr> pm_activeJobs := AList.delete u (pm_activeJobs pm) \<rparr>,
          if pj_tempDir job \<noteq> [] then rm (pj_tempDir job) rmOk dirs else dirs))"

text \<open>
  \<^verbatim>\<open>destroy\<close> (lines 180 to 187): every tracked job is cancelled, then the swarm is
  destroyed and the store closed; what these two throw is not caught.
\<close>

record destroy_env =
  rmOk :: "uuid \<Rightarrow> bool"
  swarmDestroy :: "string option"
  storeClose :: "string option"

definition PoolManager_destroy :: "destroy_env \<Rightarrow> pool_manager \<times> path set
    \<Rightarrow> (error + unit) \<times> pool_manager \<times> path set" where
  "PoolManager_destroy env = (\<lambda>(pm, dirs).
     let (pm1, dirs1) = fold (\<lambda>(u, job). cancelJob u (rmOk env u)) (pm_activeJobs pm) (pm, dirs)
     in case (if swarm pm1 then swarmDestroy env else None) of
          Some m \<Rightarrow> (Inl (Thrown m), pm1, dirs1)
        | None \<Rightarrow>
            (case storeClose env of
               Some m \<Rightarrow> (Inl (Thrown m), pm1, dirs1)
             | None \<Rightarrow> (Inr (), pm1, dirs1)))"

text \<open>
  A run reaches the wait for \<^verbatim>\<open>'finalized'\<close> when every step before it succeeds: the
  directory, the drive, the source, the metadata, segmentation, demultiplexing, the two
  manifests, a configuration that makes the pool ready, and the launch.
\<close>

definition launched :: "pool_env \<Rightarrow> bool" where
  "launched env =
     (\<not> isl (mkdtempPool env) \<and> \<not> isl (createPoolDrive env) \<and> writeSource env = None \<and>
      extractMetadata env = None \<and> \<not> isl (segmentation env) \<and> demuxTracks env = None \<and>
      putSegments env = None \<and> putTracks env = None \<and>
      (case loadConfig env of Inl m \<Rightarrow> False | Inr (ready, segs) \<Rightarrow> ready) \<and>
      launchPool env = None)"

text \<open>The event does not come within \<open>t\<close> milliseconds: never, or later.\<close>

definition notWithin :: "ms \<Rightarrow> (ms \<times> path) option \<Rightarrow> bool" where
  "notWithin t f = (case f of None \<Rightarrow> True | Some (arrival, p) \<Rightarrow> t < arrival)"

text \<open>\<^verbatim>\<open>pool.segments.length\<close> after the configuration is loaded.\<close>

definition totalSegs :: "pool_env \<Rightarrow> nat" where
  "totalSegs env = (case loadConfig env of Inl m \<Rightarrow> 0 | Inr (ready, segs) \<Rightarrow> segs)"

section \<open>Bridge (lib/bridge.js)\<close>

text \<open>
  The callback that \<^verbatim>\<open>processJob\<close> hands to the watchdog is always the same closure
  (lines 141 to 149).  The entries of the bridge's \<^verbatim>\<open>activeJobs\<close> are
  \<^verbatim>\<open>{ type, startTime }\<close>.
\<close>

datatype callback = TimeoutHandler

record bridge_job =
  bj_type :: string
  bj_startTime :: ms

text \<open>The lines that \<^verbatim>\<open>gracefulShutdown\<close> writes to its log and its debug channel.\<close>

datatype log_line =
    ShutdownInitiated
  | HealthMonitorStopped
  | NoTokenSkipped uuid
  | ReportFailed uuid string
  | PoolManagerDestroyed
  | WatchdogTimersCleared
  | UnregisteredFromPeerTube
  | UnregisterFailed string
  | ShutdownComplete

text \<open>
  The state: the fields of the bridge object with the objects it owns, and below them
  what lies outside the process or in the runtime: the timers, the temporary directories
  that exist on disk, the requests sent to the job queue so far, and the shutdown log.
\<close>

record state =
  maxConcurrentJobs :: nat
  supernovao :: supernovao_config
  runnerClient :: runner_client
  poolManager :: pool_manager
  watchdog :: "callback watchdog"
  healthMonitor :: health_monitor
  activeJobs :: "(uuid \<times> bridge_job) list"
  failedJobs :: "uuid set"
  isRunning :: bool
  rt :: "callback runtime"
  dirs :: "path set"
  requests :: "request list"
  shutdownLog :: "log_line list"

record bridge_config =
  cfg_runnerToken :: "string option"
  cfg_maxConcurrentJobs :: nat
  cfg_timeoutMs :: "nat option"
  cfg_supernovao :: supernovao_config

text \<open>The constructor (lines 15 to 34).\<close>

definition Bridge_new :: "bridge_config \<Rightarrow> state" where
  "Bridge_new config =
     \<lparr> maxConcurrentJobs = cfg_maxConcurrentJobs config,
       supernovao = cfg_supernovao config,
       runnerClient = RunnerClient_new,
       poolManager = PoolManager_new (cfg_supernovao config),
       watchdog = JobWatchdog_new (cfg_timeoutMs config),
       healthMonitor = HealthMonitor_new (Some \<lparr> cfg_checkIntervalMs = Some 30000,
          cfg_jobTimeoutMs = cfg_timeoutMs config, cfg_maxConsecutiveFailures = Some 5 \<rparr>),
       activeJobs = [],
       failedJobs = {},
       isRunning = False,
       rt = newRuntime,
       dirs = {},
       requests = [],
       shutdownLog = [] \<rparr>"

text \<open>
  \<^verbatim>\<open>start\<close> (lines 36 to 80): it throws without a runner token in the configuration;
  otherwise the token is set, the pool manager and the health monitor are started and
  the bridge is running.
\<close>

definition Bridge_start :: "bridge_config \<Rightarrow> state \<Rightarrow> string + state" where
  "Bridge_start config s =
     (case cfg_runnerToken config of
        None \<Rightarrow> Inl ''No runnerToken in config''
      | Some token \<Rightarrow>
          if token = [] then Inl ''No runnerToken in config''
          else Inr (s\<lparr> runnerClient := (runnerClient s)\<lparr> runnerToken := Some token \<rparr>,
                        poolManager := PoolManager_start (poolManager s),
                        healthMonitor := HealthMonitor_start (healthMonitor s),
                        isRunning := True \<rparr>))"

subsection \<open>The job task\<close>

text \<open>
  The three places where \<^verbatim>\<open>processJob\<close> touches the two tables: line 121 enters the
  job in \<^verbatim>\<open>activeJobs\<close>, line 177 (in the \<^verbatim>\<open>catch\<close>) adds the id to \<^verbatim>\<open>failedJobs\<close>,
  line 181 (in the \<^verbatim>\<open>finally\<close>) deletes the job from \<^verbatim>\<open>activeJobs\<close>.
\<close>

definition admit :: "uuid \<Rightarrow> string \<Rightarrow> state \<Rightarrow> state" where
  "admit u jobType s =
     s\<lparr> activeJobs := AList.update u \<lparr> bj_type = jobType, bj_startTime = clock (rt s) \<rparr>
                         (activeJobs s) \<rparr>"

definition markFailed :: "uuid \<Rightarrow> state \<Rightarrow> state" where
  "markFailed u s = s\<lparr> failedJobs := insert u (failedJobs s) \<rparr>"

definition release :: "uuid \<Rightarrow> state \<Rightarrow> state" where
  "release u s = s\<lparr> activeJobs := AList.delete u (activeJobs s) \<rparr>"

text \<open>
  What one run of \<^verbatim>\<open>processJob\<close> meets outside, call by call: making the job's
  directory, the download, the run of the pool manager, the answers to the progress
  updates (by percentage), the artifact, reading it for the upload, the answers to the
  success and the error report, and whether the three removals succeed.
\<close>

record job_env =
  mkdtempJob :: "string + path"
  download :: fetch_result
  downloadWrite :: "string option"
  poolEnv :: pool_env
  updateResponse :: "nat \<Rightarrow> fetch_result"
  artifactEnv :: artifact
  readArtifact :: "string option"
  successResponse :: fetch_result
  errorResponse :: fetch_result
  cancelRmOk :: bool
  rmJobTempOk :: bool
  rmPoolTempOk :: bool

text \<open>Calls on the objects the bridge owns, lifted to the state.\<close>

definition watchJob :: "uuid \<Rightarrow> state \<Rightarrow> state" where
  "watchJob u s =
     (let (wd, r) = watch u TimeoutHandler (watchdog s, rt s) in s\<lparr> watchdog := wd, rt := r \<rparr>)"

definition kickJob :: "uuid \<Rightarrow> state \<Rightarrow> state" where
  "kickJob u s = (let (wd, r) = kick u (watchdog s, rt s) in s\<lparr> watchdog := wd, rt := r \<rparr>)"

definition clearJob :: "uuid \<Rightarrow> state \<Rightarrow> state" where
  "clearJob u s = (let (wd, r) = clear u (watchdog s, rt s) in s\<lparr> watchdog := wd, rt := r \<rparr>)"

definition cancelPoolJob :: "uuid \<Rightarrow> bool \<Rightarrow> state \<Rightarrow> state" where
  "cancelPoolJob u ok s =
     (let (pm, ds) = cancelJob u ok (poolManager s, dirs s) in s\<lparr> poolManager := pm, dirs := ds \<rparr>)"

text \<open>A call of the runner client from the bridge: the client is replaced, the requests
  are appended, the result is returned.\<close>

definition client :: "(runner_client \<Rightarrow> unit client_result) \<Rightarrow> state \<Rightarrow> (error + unit) \<times> state" where
  "client f s =
     (let (r, c, reqs) = f (runnerClient s)
      in (r, s\<lparr> runnerClient := c, requests := requests s @ reqs \<rparr>))"

text \<open>
  The progress callback (lines 154 to 158): the watchdog is kicked and the update is
  sent without waiting; what the update throws is caught.
\<close>

definition onProgress :: "(nat \<Rightarrow> fetch_result) \<Rightarrow> uuid \<Rightarrow> nat \<Rightarrow> state \<Rightarrow> state" where
  "onProgress resp u percent s =
     snd (client (updateJob u percent (resp percent)) (kickJob u s))"

text \<open>
  The timeout handler (lines 141 to 149): the error is reported and then the pool job
  cancelled; if the report throws, the cancellation is skipped and the exception caught.
\<close>

definition timeoutHandler :: "fetch_result \<Rightarrow> bool \<Rightarrow> uuid \<Rightarrow> state \<Rightarrow> state" where
  "timeoutHandler res ok u s =
     (let (r, s1) = client (postError u ''Job timed out'' res) s
      in case r of Inl e \<Rightarrow> s1 | Inr x \<Rightarrow> cancelPoolJob u ok s1)"

text \<open>
  Lines 140 to 160 of the \<^verbatim>\<open>try\<close> block: the watchdog is armed and the pool manager
  runs the job.  The progress callbacks of the run touch the watchdog, the timers, the
  client and the requests; the run itself touches the pool manager and the directories;
  so the callbacks are applied after the run, in their order.
\<close>

definition runPool :: "job_env \<Rightarrow> uuid \<Rightarrow> workflow \<Rightarrow> state \<Rightarrow> (error + pool_result) \<times> state" where
  "runPool env u workflow s =
     (let s1 = watchJob u s;
          (r, ps, pm, ds) = PoolManager_processJob (poolEnv env) workflow (clock (rt s1))
                              (poolManager s1, dirs s1)
      in (r, fold (onProgress (updateResponse env) u) ps (s1\<lparr> poolManager := pm, dirs := ds \<rparr>)))"

text \<open>Lines 162 to 168: the artifact is validated and uploaded, and the watchdog cleared.\<close>

definition finishJob :: "job_env \<Rightarrow> uuid \<Rightarrow> workflow \<Rightarrow> pool_result \<Rightarrow> state
    \<Rightarrow> error option \<times> state" where
  "finishJob env u workflow poolResult s =
     (case prepareResult (outputPath poolResult) workflow (artifactEnv env) of
        Inl e \<Rightarrow> (Some e, s)
      | Inr result \<Rightarrow>
          let (r, s1) = client (uploadResult u result (readArtifact env) (successResponse env)) s
          in (case r of Inl e \<Rightarrow> (Some e, s1) | Inr x \<Rightarrow> (None, clearJob u s1)))"

text \<open>
  The \<^verbatim>\<open>try\<close> block (lines 125 to 168).  It gives the exception that ended it, if any,
  the two local variables \<^verbatim>\<open>tempDir\<close> and \<^verbatim>\<open>poolTempDir\<close> as they are when it ends,
  and the state.  \<^verbatim>\<open>poolTempDir\<close> is assigned from the result of the pool manager's
  run, so it is set only if that run returned.
\<close>

definition processJob_try :: "job_env \<Rightarrow> uuid \<Rightarrow> string \<Rightarrow> payload \<Rightarrow> state
    \<Rightarrow> error option \<times> path option \<times> path option \<times> state" where
  "processJob_try env u jobType p s =
     (case translateJob jobType p (supernovao s) of
        Inl e \<Rightarrow> (Some e, None, None, s)
      | Inr translated \<Rightarrow>
          (case mkdtempJob env of
             Inl m \<Rightarrow> (Some (Thrown m), None, None, s)
           | Inr tmp \<Rightarrow>
               let s1 = s\<lparr> dirs := insert tmp (dirs s) \<rparr>
               in (case downloadInput (download env) (downloadWrite env) of
                     Some e \<Rightarrow> (Some e, Some tmp, None, s1)
                   | None \<Rightarrow>
                       let workflow = translated\<lparr> jobUUID := u,
                                         localInputPath := tmp @ ''/input.mp4'' \<rparr>;
                           (r, s2) = runPool env u workflow s1
                       in (case r of
                             Inl e \<Rightarrow> (Some e, Some tmp, None, s2)
                           | Inr poolResult \<Rightarrow>
                               let (err, s3) = finishJob env u workflow poolResult s2
                               in (err, Some tmp, Some (pr_tempDir poolResult), s3)))))"

text \<open>
  The \<^verbatim>\<open>catch\<close> block (lines 169 to 179), as the states it passes: after the error
  report, whose own exception is swallowed, the id is added to \<^verbatim>\<open>failedJobs\<close> and the
  watchdog cleared; that is the state while the block awaits \<^verbatim>\<open>cancelJob\<close>; the last
  state is the one after the cancellation.
\<close>

definition processJob_catch :: "job_env \<Rightarrow> uuid \<Rightarrow> error \<Rightarrow> state \<Rightarrow> state list" where
  "processJob_catch env u err s =
     (let s1 = snd (client (postError u (message err) (errorResponse env)) s);
          s2 = clearJob u (markFailed u s1);
          s3 = cancelPoolJob u (cancelRmOk env) s2
      in [s1, s2, s3])"

text \<open>
  The \<^verbatim>\<open>finally\<close> block (lines 180 to 184): the job leaves \<^verbatim>\<open>activeJobs\<close>, then each
  of the two directories is removed if its variable is set (a non-empty string).
\<close>

definition cleanupIfSet :: "path option \<Rightarrow> bool \<Rightarrow> state \<Rightarrow> state" where
  "cleanupIfSet dir ok s =
     (case dir of
        None \<Rightarrow> s
      | Some d \<Rightarrow> if d = [] then s else s\<lparr> dirs := cleanupTemp d ok (dirs s) \<rparr>)"

definition processJob_finally :: "job_env \<Rightarrow> uuid \<Rightarrow> path option \<Rightarrow> path option \<Rightarrow> state
    \<Rightarrow> state list" where
  "processJob_finally env u tmp poolTmp s =
     (let s1 = release u s;
          s2 = cleanupIfSet tmp (rmJobTempOk env) s1;
          s3 = cleanupIfSet poolTmp (rmPoolTempOk env) s2
      in [s1, s2, s3])"

text \<open>
  \<^verbatim>\<open>processJob\<close> (lines 120 to 185) as the states the task passes, in order: the state
  with the job entered in \<^verbatim>\<open>activeJobs\<close>, which holds the two tables as they are during
  the whole \<^verbatim>\<open>try\<close> block; the state at the end of the \<^verbatim>\<open>try\<close> block; the states of
  the \<^verbatim>\<open>catch\<close> block if the \<^verbatim>\<open>try\<close> block threw; the states of the \<^verbatim>\<open>finally\<close>
  block.  The last state is the one in which the task ends.
\<close>

definition processJob_states :: "job_env \<Rightarrow> uuid \<Rightarrow> string \<Rightarrow> payload \<Rightarrow> state \<Rightarrow> state list" where
  "processJob_states env u jobType p s =
     (let s0 = admit u jobType s;
          (err, tmp, poolTmp, s1) = processJob_try env u jobType p s0;
          caught = (case err of None \<Rightarrow> [] | Some e \<Rightarrow> processJob_catch env u e s1)
      in [s0, s1] @ caught @ processJob_finally env u tmp poolTmp (last (s1 # caught)))"

definition Bridge_processJob :: "job_env \<Rightarrow> uuid \<Rightarrow> string \<Rightarrow> payload \<Rightarrow> state \<Rightarrow> state" where
  "Bridge_processJob env u jobType p s = last (processJob_states env u jobType p s)"

text \<open>The ids in the active-job table, and the ids that are in both collections.\<close>

definition activeIds :: "state \<Rightarrow> uuid set" where
  "activeIds s = fst ` set (activeJobs s)"

definition inBoth :: "state \<Rightarrow> uuid set" where
  "inBoth s = activeIds s \<inter> failedJobs s"

text \<open>The two tables of a state together.\<close>

definition tables :: "state \<Rightarrow> (uuid \<times> bridge_job) list \<times> uuid set" where
  "tables s = (activeJobs s, failedJobs s)"

subsection \<open>The poll cycle\<close>

text \<open>
  A job as the queue offers it: \<^verbatim>\<open>{ uuid, type, payload }\<close>.  \<^verbatim>\<open>requestJob\<close>
  (lib/runner-client.js, lines 77 to 96) throws when the request or the parsing of its
  body throws and when the status is not a success; otherwise it returns the parsed
  body, whose \<^verbatim>\<open>availableJobs\<close> may be absent.
\<close>

record available_job =
  j_uuid :: uuid
  j_type :: string
  j_payload :: payload

datatype request_result =
    RequestThrows string
  | RequestFailed nat string
  | RequestOk "available_job list option"

definition requestJob :: "request_result \<Rightarrow> runner_client
    \<Rightarrow> (error + available_job list option) \<times> runner_client \<times> request list" where
  "requestJob res c =
     (case res of
        RequestThrows m \<Rightarrow> (Inl (Thrown m), c, [RequestJob])
      | RequestFailed status body \<Rightarrow> (Inl (HttpFailed RequestJob status body), c, [RequestJob])
      | RequestOk availableJobs \<Rightarrow> (Inr availableJobs, c, [RequestJob]))"

text \<open>
  While \<^verbatim>\<open>poll\<close> awaits an answer of the job queue, the tasks of the jobs that are
  running go on.  What they do to the two tables is a sequence of the steps of lines 177
  and 181: an id is added to \<^verbatim>\<open>failedJobs\<close>, a job is deleted from \<^verbatim>\<open>activeJobs\<close>.
  (A second \<^verbatim>\<open>poll\<close> that runs during the wait is not among them: the property is about
  a single invocation.)
\<close>

datatype task_step = MarkFailed uuid | Release uuid

fun taskStep :: "task_step \<Rightarrow> state \<Rightarrow> state" where
  "taskStep (MarkFailed u) s = markFailed u s"
| "taskStep (Release u) s = release u s"

definition interfere :: "task_step list \<Rightarrow> state \<Rightarrow> state" where
  "interfere steps s = fold taskStep steps s"

text \<open>
  What one poll cycle meets outside: the answer to the request for jobs and what the
  running tasks do meanwhile; for the job at position \<open>i\<close> of the answer, the answer to
  its accept call and what the running tasks do while \<^verbatim>\<open>poll\<close> awaits it.
\<close>

record poll_env =
  requestJobResult :: request_result
  duringRequest :: "task_step list"
  acceptResult :: "nat \<Rightarrow> fetch_result"
  duringAccept :: "nat \<Rightarrow> task_step list"

text \<open>
  The loop of lines 97 to 114 from position \<open>i\<close> on.  It gives the admissions in their
  order, each with the job and the state right after it (the accept call has returned and
  \<^verbatim>\<open>processJob\<close> has run up to its first \<^verbatim>\<open>await\<close>, so the job is in \<^verbatim>\<open>activeJobs\<close>),
  and the state in which the loop ends.  An exception of the accept call leaves the loop:
  it is caught on line 115.
\<close>

fun poll_loop :: "poll_env \<Rightarrow> nat \<Rightarrow> available_job list \<Rightarrow> state
    \<Rightarrow> (available_job \<times> state) list \<times> state" where
  "poll_loop env i [] s = ([], s)"
| "poll_loop env i (job # rest) s =
     (if length (activeJobs s) \<ge> maxConcurrentJobs s then ([], s)
      else if \<not> isSupported (j_type job) then poll_loop env (i + 1) rest s
      else if j_uuid job \<in> failedJobs s then poll_loop env (i + 1) rest s
      else
        let (r, s1) = client (acceptJob (j_uuid job) (acceptResult env i)) s;
            s2 = interfere (duringAccept env i) s1
        in case r of
             Inl e \<Rightarrow> ([], s2)
           | Inr x \<Rightarrow>
               let s3 = admit (j_uuid job) (j_type job) s2;
                   (admitted, s4) = poll_loop env (i + 1) rest s3
               in ((job, s3) # admitted, s4))"

text \<open>\<^verbatim>\<open>poll\<close> (lines 82 to 118).\<close>

definition poll :: "poll_env \<Rightarrow> state \<Rightarrow> (available_job \<times> state) list \<times> state" where
  "poll env s =
     (if \<not> isRunning s then ([], s)
      else if \<not> isHealthy (healthMonitor s) then ([], s)
      else if length (activeJobs s) \<ge> maxConcurrentJobs s then ([], s)
      else
        let (r, c, reqs) = requestJob (requestJobResult env) (runnerClient s);
            s1 = interfere (duringRequest env)
                   (s\<lparr> runnerClient := c, requests := requests s @ reqs \<rparr>)
        in case r of
             Inl e \<Rightarrow> ([], s1)
           | Inr None \<Rightarrow> ([], s1)
           | Inr (Some availableJobs) \<Rightarrow> poll_loop env 0 availableJobs s1)"

text \<open>The jobs that the queue returned, in its order.\<close>

definition offered :: "poll_env \<Rightarrow> available_job list" where
  "offered env =
     (case requestJobResult env of
        RequestOk (Some availableJobs) \<Rightarrow> availableJobs
      | _ \<Rightarrow> [])"

text \<open>Every admission of a list is within the limit; every one leaves room.\<close>

definition withinLimit :: "nat \<Rightarrow> (available_job \<times> state) list \<Rightarrow> bool" where
  "withinLimit limit admitted = list_all (\<lambda>(job, t). length (activeJobs t) \<le> limit) admitted"

definition belowLimit :: "nat \<Rightarrow> (available_job \<times> state) list \<Rightarrow> bool" where
  "belowLimit limit admitted = list_all (\<lambda>(job, t). length (activeJobs t) < limit) admitted"

subsection \<open>Shutdown (lib/health.js, lines 125 to 170)\<close>

text \<open>
  What the shutdown meets outside: the answer to the error report of each active job,
  what the destruction of the pool manager meets, and the answer to the unregister call.
\<close>

record shutdown_env =
  postErrorResponse :: "uuid \<Rightarrow> fetch_result"
  destroyEnv :: destroy_env
  unregisterResponse :: fetch_result

definition logLine :: "log_line \<Rightarrow> state \<Rightarrow> state" where
  "logLine l s = s\<lparr> shutdownLog := shutdownLog s @ [l] \<rparr>"

text \<open>
  The body of the loop of lines 140 to 150 for one active job of the pool manager: a job
  without a token in \<^verbatim>\<open>jobTokens\<close> is skipped with a debug line; for the others the
  error is reported, and an exception of the report is caught and written as a debug line.
\<close>

definition reportShutdown :: "shutdown_env \<Rightarrow> uuid \<Rightarrow> state \<Rightarrow> state" where
  "reportShutdown env u s =
     (if map_of (jobTokens (runnerClient s)) u = None then logLine (NoTokenSkipped u) s
      else
        let (r, s1) = client (postError u ''Runner shutting down'' (postErrorResponse env u)) s
        in case r of Inl e \<Rightarrow> logLine (ReportFailed u (message e)) s1 | Inr x \<Rightarrow> s1)"

text \<open>
  \<^verbatim>\<open>gracefulShutdown\<close>.  The hard timeout is armed first and cleared in the \<^verbatim>\<open>finally\<close>
  block.  Inside the \<^verbatim>\<open>try\<close> block the health monitor is stopped, the active jobs are
  reported, the pool manager is destroyed, the watchdog timers are cleared and the
  runner is unregistered.  Only the reports and the unregister call have a \<^verbatim>\<open>catch\<close> of
  their own: an exception of \<^verbatim>\<open>poolManager.destroy()\<close> leaves the \<^verbatim>\<open>try\<close> block, and
  with it the function, through the \<^verbatim>\<open>finally\<close> block.
\<close>

definition gracefulShutdown :: "shutdown_env \<Rightarrow> state \<Rightarrow> (error + unit) \<times> state" where
  "gracefulShutdown env s =
     (let s1 = logLine ShutdownInitiated s;
          (hardTimeout, r1) = setTimeout ForceExit 30000 (rt s1);
          s2 = s1\<lparr> rt := r1 \<rparr>;
          s3 = logLine HealthMonitorStopped
                 (s2\<lparr> healthMonitor := HealthMonitor_stop (healthMonitor s2) \<rparr>);
          s4 = fold (\<lambda>(u, job). reportShutdown env u) (pm_activeJobs (poolManager s3)) s3;
          (r, pm, ds) = PoolManager_destroy (destroyEnv env) (poolManager s4, dirs s4);
          s5 = s4\<lparr> poolManager := pm, dirs := ds \<rparr>
      in case r of
           Inl e \<Rightarrow> (Inl e, s5\<lparr> rt := clearTimeout hardTimeout (rt s5) \<rparr>)
         | Inr x \<Rightarrow>
             let s6 = logLine PoolManagerDestroyed s5;
                 (wd, r2) = clearAll (watchdog s6, rt s6);
                 s7 = logLine WatchdogTimersCleared (s6\<lparr> watchdog := wd, rt := r2 \<rparr>);
                 (ru, s8) = client (unregister (unregisterResponse env)) s7;
                 s9 = (case ru of
                         Inl e \<Rightarrow> logLine (UnregisterFailed (message e)) s8
                       | Inr y \<Rightarrow> logLine UnregisteredFromPeerTube s8);
                 s10 = s9\<lparr> rt := clearTimeout hardTimeout (rt s9) \<rparr>
             in (Inr (), logLine ShutdownComplete s10))"

text \<open>\<^verbatim>\<open>stop\<close> (lib/bridge.js, lines 187 to 200).\<close>

definition Bridge_stop :: "shutdown_env \<Rightarrow> state \<Rightarrow> (error + unit) \<times> state" where
  "Bridge_stop env s = gracefulShutdown env (s\<lparr> isRunning := False \<rparr>)"

section \<open>Properties of the HealthMonitor\<close>

lemma HealthMonitor_new_threshold: "0 < maxConsecutiveFailures (HealthMonitor_new config)"
  by (simp add: HealthMonitor_new_def or_default_def split: option.splits)

lemma check_failed:
  "probeFailed res \<Longrightarrow>
     consecutiveFailures (fst (check res now js hm)) = consecutiveFailures hm + 1 \<and>
     maxConsecutiveFailures (fst (check res now js hm)) = maxConsecutiveFailures hm \<and>
     healthy (fst (check res now js hm)) =
       (healthy hm \<and> consecutiveFailures hm + 1 < maxConsecutiveFailures hm)"
  by (cases res) (auto simp: check_def recordFailure_def Let_def)

lemma check_succeeded:
  "\<not> probeFailed res \<Longrightarrow>
     consecutiveFailures (fst (check res now js hm)) = 0 \<and> healthy (fst (check res now js hm))"
  by (cases res) (auto simp: check_def)

lemma zombieScan_not_unhealthy: "filter isUnhealthy (zombieScan now js hm) = []"
  by (induction js) (auto simp: zombieScan_def Let_def)

lemma check_unhealthyFired:
  "unhealthyFired (snd (check res now js hm)) =
     (probeFailed res \<and> maxConsecutiveFailures hm \<le> consecutiveFailures hm + 1)"
  by (cases res)
     (auto simp: check_def recordFailure_def unhealthyFired_def Let_def zombieScan_not_unhealthy)

text \<open>A streak of failed probes: the counter grows by the length of the streak, and the
  monitor stays healthy exactly as long as the counter is below the threshold.\<close>

lemma failing_checks:
  "list_all (\<lambda>p. probeFailed (fst p)) ps \<Longrightarrow>
     consecutiveFailures (checks ps hm) = consecutiveFailures hm + length ps \<and>
     maxConsecutiveFailures (checks ps hm) = maxConsecutiveFailures hm \<and>
     healthy (checks ps hm) =
       (if ps = [] then healthy hm
        else healthy hm \<and> consecutiveFailures hm + length ps < maxConsecutiveFailures hm)"
proof (induction ps arbitrary: hm)
  case Nil
  then show ?case by simp
next
  case (Cons p ps)
  obtain res now js where p: "p = (res, now, js)" by (cases p)
  from Cons.prems p have f: "probeFailed res" and rest: "list_all (\<lambda>p. probeFailed (fst p)) ps"
    by simp_all
  note step = check_failed [OF f, of now js hm]
  note ih = Cons.IH [OF rest, of "fst (check res now js hm)"]
  show ?case using step ih by (auto simp: p)
qed

text \<open>
  Claim C5.  Take a monitor whose streak is 0 and which is healthy (as the constructor
  leaves it, or a successful probe), with a threshold above 0 (the constructor gives no
  other), and let a run \<open>ps\<close> of probe cycles all fail.  If the run has exactly
  \<open>maxConsecutiveFailures\<close> cycles, \<open>isHealthy\<close> is false afterwards; after fewer
  it is still true.  One successful probe after the run sets the streak to 0 and
  \<open>isHealthy\<close> to true.  And a further cycle sends the \<^verbatim>\<open>'unhealthy'\<close> event exactly
  when it fails and its streak, \<open>length ps + 1\<close>, is at or above the threshold: on
  every such cycle, not only on the first.
\<close>

theorem health_monitor_hysteresis:
  assumes "list_all (\<lambda>p. probeFailed (fst p)) ps"
    and "consecutiveFailures hm = 0" and "healthy hm" and "0 < maxConsecutiveFailures hm"
  shows "(length ps = maxConsecutiveFailures hm \<longrightarrow> \<not> isHealthy (checks ps hm)) \<and>
         (length ps < maxConsecutiveFailures hm \<longrightarrow> isHealthy (checks ps hm)) \<and>
         (\<not> probeFailed res \<longrightarrow>
            consecutiveFailures (fst (check res now js (checks ps hm))) = 0 \<and>
            isHealthy (fst (check res now js (checks ps hm)))) \<and>
         unhealthyFired (snd (check res' now' js' (checks ps hm))) =
           (probeFailed res' \<and> maxConsecutiveFailures hm \<le> length ps + 1)"
  using failing_checks [OF assms(1), of hm] assms(2-4)
    check_succeeded [of res now js "checks ps hm"]
    check_unhealthyFired [of res' now' js' "checks ps hm"]
  by (auto simp: isHealthy_def)

theorem health_monitor_hysteresis_witness:
  "list_all (\<lambda>p. probeFailed (fst p))
      [(FetchThrows ''down'', 0, []), (FetchResponse 503 '''', 30000, [])] \<and>
   consecutiveFailures (HealthMonitor_new (Some \<lparr> cfg_checkIntervalMs = None,
      cfg_jobTimeoutMs = None, cfg_maxConsecutiveFailures = Some 2 \<rparr>)) = 0 \<and>
   healthy (HealthMonitor_new (Some \<lparr> cfg_checkIntervalMs = None,
      cfg_jobTimeoutMs = None, cfg_maxConsecutiveFailures = Some 2 \<rparr>)) \<and>
   0 < maxConsecutiveFailures (HealthMonitor_new (Some \<lparr> cfg_checkIntervalMs = None,
      cfg_jobTimeoutMs = None, cfg_maxConsecutiveFailures = Some 2 \<rparr>)) \<and>
   \<not> isHealthy (checks [(FetchThrows ''down'', 0, []), (FetchResponse 503 '''', 30000, [])]
      (HealthMonitor_new (Some \<lparr> cfg_checkIntervalMs = None,
         cfg_jobTimeoutMs = None, cfg_maxConsecutiveFailures = Some 2 \<rparr>))) \<and>
   isHealthy (fst (check (FetchResponse 200 '''') 60000 []
      (checks [(FetchThrows ''down'', 0, []), (FetchResponse 503 '''', 30000, [])]
        (HealthMonitor_new (Some \<lparr> cfg_checkIntervalMs = None,
           cfg_jobTimeoutMs = None, cfg_maxConsecutiveFailures = Some 2 \<rparr>))))) \<and>
   unhealthyFired (snd (check (FetchThrows ''down'') 60000 []
      (checks [(FetchThrows ''down'', 0, []), (FetchResponse 503 '''', 30000, [])]
        (HealthMonitor_new (Some \<lparr> cfg_checkIntervalMs = None,
           cfg_jobTimeoutMs = None, cfg_maxConsecutiveFailures = Some 2 \<rparr>)))))"
  using health_monitor_hysteresis
    [of "[(FetchThrows ''down'', 0, []), (FetchResponse 503 '''', 30000, [])]"
        "HealthMonitor_new (Some \<lparr> cfg_checkIntervalMs = None,
           cfg_jobTimeoutMs = None, cfg_maxConsecutiveFailures = Some 2 \<rparr>)"
        "FetchResponse 200 ''''" 60000 "[]" "FetchThrows ''down''" 60000 "[]"]
  by (simp add: HealthMonitor_new_def or_default_def cfg_field_def res_ok_def)

section \<open>Properties of the JobWatchdog\<close>

lemma length_update:
  "length (AList.update k v al) = (if k \<in> fst ` set al then length al else Suc (length al))"
  by (induction al) auto

text \<open>Whatever the state, \<open>watch\<close> leaves one more pending timer for the id than
  there was, while the id keeps a single entry in the map.\<close>

lemma watch_adds_timer:
  "length (timersFor u (snd (watch u cb s))) = length (timersFor u (snd s)) + 1"
  by (cases s) (simp add: watch_def setTimeout_def timersFor_def Let_def)

lemma watch_keeps_one_entry:
  "u \<in> fst ` set (jobs (fst s)) \<Longrightarrow> length (jobs (fst (watch u cb s))) = length (jobs (fst s))"
  by (cases s) (simp add: watch_def setTimeout_def Let_def length_update)

text \<open>
  Claim C1 fails on the code.  A watchdog with a timeout of 1000 ms watches the job
  \<open>''job''\<close> twice.  The map then has one entry for the job, but two timers for it are
  pending, and both deliver \<open>onTimeout\<close> when the clock reaches 1000.  If the job is
  cleared after the second \<open>watch\<close>, the entry is gone, yet the first timer is still
  pending and delivers \<open>onTimeout\<close> at 1000 although \<open>clear\<close> came before the deadline.
\<close>

theorem watch_twice_stacks_timers:
  "let s0 = (JobWatchdog_new (Some 1000), newRuntime);
       s2 = watch ''job'' ''cb'' (watch ''job'' ''cb'' s0);
       s3 = clear ''job'' s2
   in length (jobs (fst s2)) = 1 \<and>
      length (timersFor ''job'' (snd s2)) = 2 \<and>
      timeoutsDelivered ''job'' (advance 1000 (snd s2)) = [1000, 1000] \<and>
      jobs (fst s3) = [] \<and>
      length (timersFor ''job'' (snd s3)) = 1 \<and>
      timeoutsDelivered ''job'' (advance 1000 (snd s3)) = [1000]"
  by (simp add: JobWatchdog_new_def newRuntime_def watch_def clear_def setTimeout_def
      clearTimeout_def advance_def timersFor_def timeoutsDelivered_def or_default_def
      timerDelay_def Let_def)

section \<open>Properties of the RunnerClient\<close>











section \<open>Properties of the result hand-off\<close>



section \<open>Properties of the double-precision rounding\<close>













section \<open>Properties of the PoolManager\<close>

lemma pipelineTimeout_pos: "0 < pipelineTimeout config"
  by (simp add: pipelineTimeout_def or_default_def split: option.splits)

lemma timerDelay_le: "0 < t \<Longrightarrow> timerDelay t \<le> t"
  by (simp add: timerDelay_def)

lemma awaitFinalized_timeout:
  "notWithin (pipelineTimeout config) f \<Longrightarrow>
     awaitFinalized config f = Inl (JobTimedOut (pipelineTimeout config))"
  using timerDelay_le [OF pipelineTimeout_pos, of config]
  by (auto simp: awaitFinalized_def notWithin_def split: option.splits)

lemma emit_simps [simp]:
  "fst (emit p k pm) = fst (k pm)"
  "fst (snd (emit p k pm)) = p # fst (snd (k pm))"
  "snd (snd (emit p k pm)) = snd (snd (k pm))"
  by (simp_all add: emit_def split: prod.splits)

lemma emits_simps [simp]:
  "fst (emits qs k pm) = fst (k pm)"
  "fst (snd (emits qs k pm)) = qs @ fst (snd (k pm))"
  "snd (snd (emits qs k pm)) = snd (snd (k pm))"
  by (simp_all add: emits_def split: prod.splits)

lemma throw_simps [simp]:
  "fst (throw e pm) = Inl e" "fst (snd (throw e pm)) = []" "snd (snd (throw e pm)) = pm"
  by (simp_all add: throw_def)

lemma finish_simps [simp]:
  "fst (finish x pm) = Inr x" "fst (snd (finish x pm)) = []" "snd (snd (finish x pm)) = pm"
  by (simp_all add: finish_def)

lemma modify_simp [simp]: "modify f k pm = k (f pm)"
  by (simp add: modify_def)

lemma external_simps [simp]:
  "external None k = k" "external (Some m) k = throw (Thrown m)"
  by (simp_all add: external_def)

lemma monitor_config [simp]: "pm_config (pm\<lparr> pm_activeJobs := x \<rparr>) = pm_config pm"
  by simp

lemma monitor_timeout:
  "notWithin (pipelineTimeout (pm_config pm)) (finalized env) \<Longrightarrow>
     fst (monitor env jobKey now segs tmp pm) = Inl (JobTimedOut (pipelineTimeout (pm_config pm)))"
  by (simp add: monitor_def awaitFinalized_timeout)

lemma monitor_rejects:
  "notWithin (pipelineTimeout (pm_config pm)) (finalized env) \<Longrightarrow>
     isl (fst (monitor env jobKey now segs tmp pm))"
  by (simp add: monitor_timeout)

lemma launched_steps:
  assumes "launched env"
  obtains tmp key n segs where
    "mkdtempPool env = Inr tmp" "createPoolDrive env = Inr key" "segmentation env = Inr n"
    "loadConfig env = Inr (True, segs)" "writeSource env = None" "extractMetadata env = None"
    "demuxTracks env = None" "putSegments env = None" "putTracks env = None" "launchPool env = None"
proof -
  from assms obtain tmp where 1: "mkdtempPool env = Inr tmp"
    by (cases "mkdtempPool env") (auto simp: launched_def)
  from assms obtain key where 2: "createPoolDrive env = Inr key"
    by (cases "createPoolDrive env") (auto simp: launched_def)
  from assms obtain n where 3: "segmentation env = Inr n"
    by (cases "segmentation env") (auto simp: launched_def)
  from assms obtain segs where 4: "loadConfig env = Inr (True, segs)"
    by (cases "loadConfig env") (auto simp: launched_def)
  from assms have "writeSource env = None" "extractMetadata env = None"
    "demuxTracks env = None" "putSegments env = None" "putTracks env = None" "launchPool env = None"
    by (simp_all add: launched_def)
  with 1 2 3 4 that show thesis by blast
qed

lemma processJob_projections:
  assumes "mkdtempPool env = Inr tmp"
  shows "fst (PoolManager_processJob env w now (pm, ds)) = fst (submit env (jobUUID w) now tmp pm)"
    and "fst (snd (PoolManager_processJob env w now (pm, ds))) =
           fst (snd (submit env (jobUUID w) now tmp pm))"
  using assms by (simp_all add: PoolManager_processJob_def split: prod.splits)

lemma processJob_timeout:
  assumes "launched env" and "notWithin (pipelineTimeout (pm_config pm)) (finalized env)"
  shows "fst (PoolManager_processJob env w now (pm, ds)) =
           Inl (JobTimedOut (pipelineTimeout (pm_config pm)))"
proof -
  from assms(1) obtain tmp key n segs where steps:
    "mkdtempPool env = Inr tmp" "createPoolDrive env = Inr key" "segmentation env = Inr n"
    "loadConfig env = Inr (True, segs)" "writeSource env = None" "extractMetadata env = None"
    "demuxTracks env = None" "putSegments env = None" "putTracks env = None" "launchPool env = None"
    by (rule launched_steps)
  have "notWithin (pipelineTimeout (pm_config (pm\<lparr>poolKey := Some key\<rparr>))) (finalized env)"
    using assms(2) by simp
  then show ?thesis
    by (simp add: processJob_projections(1) [OF steps(1)] steps submit_def segmentAndDemux_def
        loadAndLaunch_def monitor_timeout)
qed

lemma loadAndLaunch_rejects:
  "notWithin (pipelineTimeout (pm_config pm)) (finalized env) \<Longrightarrow>
     isl (fst (loadAndLaunch env jobKey now tmp pm))"
  by (cases "launchPool env")
     (auto simp: loadAndLaunch_def monitor_timeout split: sum.splits)

lemma submit_rejects:
  "notWithin (pipelineTimeout (pm_config pm)) (finalized env) \<Longrightarrow>
     isl (fst (submit env jobKey now tmp pm))"
  using loadAndLaunch_rejects [of "pm\<lparr>poolKey := Some key\<rparr>" env jobKey now tmp for key]
  by (cases "writeSource env"; cases "extractMetadata env"; cases "demuxTracks env";
      cases "putSegments env"; cases "putTracks env")
     (auto simp: submit_def segmentAndDemux_def split: sum.splits)

text \<open>A run that does not see the event in time never resolves, wherever it stops.\<close>

lemma processJob_rejects:
  "notWithin (pipelineTimeout (pm_config pm)) (finalized env) \<Longrightarrow>
     isl (fst (PoolManager_processJob env w now (pm, ds)))"
  by (cases "mkdtempPool env")
     (simp_all add: processJob_projections(1) submit_rejects, simp add: PoolManager_processJob_def)

text \<open>
  Claim C6.  Let the \<^verbatim>\<open>'finalized'\<close> event not come within the pipeline timeout of the
  pool manager's configuration: never, or later than that many milliseconds after the
  wait began.  Then \<open>processJob\<close> rejects; and when the run reaches the wait, it rejects
  with the timeout error that carries this timeout.  The timeout is the configured
  \<open>segmentTimeoutMs\<close>, or 600000 ms when that is absent or 0.  It is a setting of the
  pool manager: the job timeout of the watchdog is no argument of \<open>processJob\<close>.
\<close>

theorem pipeline_timeout_rejects:
  assumes "notWithin (pipelineTimeout (pm_config pm)) (finalized env)"
  shows "isl (fst (PoolManager_processJob env w now (pm, ds))) \<and>
         (launched env \<longrightarrow>
            fst (PoolManager_processJob env w now (pm, ds)) =
              Inl (JobTimedOut (pipelineTimeout (pm_config pm)))) \<and>
         pipelineTimeout (pm_config pm) =
           (case segmentTimeoutMs (pm_config pm) of
              None \<Rightarrow> 600000
            | Some t \<Rightarrow> if t = 0 then 600000 else t)"
  using processJob_rejects [OF assms] processJob_timeout [OF _ assms]
  by (simp add: pipelineTimeout_def or_default_def)

theorem pipeline_timeout_rejects_witness:
  "let env = \<lparr> mkdtempPool = Inr ''/tmp/ptsn-A'', poolHandle = 1, createPoolDrive = Inr ''ab12'',
                 writeSource = None, extractMetadata = None, segmentation = Inr 3,
                 demuxTracks = None, putSegments = None, putTracks = None,
                 loadConfig = Inr (True, 3), launchPool = None, segmentsComplete = [0, 1],
                 finalized = Some (5001, ''/output/final.mp4''), readOutput = None,
                 destroyPool = None \<rparr>;
       pm = PoolManager_start (PoolManager_new \<lparr> storage = None, cfg_bitrate = None,
                 cfg_level = None, segmentTimeoutMs = Some 5000 \<rparr>);
       w = \<lparr> wf_type = ''vod-web'', inputUrl = Some ''http://pt/in.mp4'', wf_resolution = Some 720,
              wf_fps = Some 30, bitrate = ''200000'', level = ''5.1'', outputFormat = ''mp4'',
              jobUUID = ''j1'', localInputPath = ''/tmp/ptsn-j1/input.mp4'' \<rparr>
   in notWithin (pipelineTimeout (pm_config pm)) (finalized env) \<and> launched env \<and>
      fst (PoolManager_processJob env w 0 (pm, {})) = Inl (JobTimedOut 5000)"
proof -
  let ?env = "\<lparr> mkdtempPool = Inr ''/tmp/ptsn-A'', poolHandle = 1, createPoolDrive = Inr ''ab12'',
                 writeSource = None, extractMetadata = None, segmentation = Inr 3,
                 demuxTracks = None, putSegments = None, putTracks = None,
                 loadConfig = Inr (True, 3), launchPool = None, segmentsComplete = [0, 1],
                 finalized = Some (5001, ''/output/final.mp4''), readOutput = None,
                 destroyPool = None \<rparr>"
  let ?pm = "PoolManager_start (PoolManager_new \<lparr> storage = None, cfg_bitrate = None,
                 cfg_level = None, segmentTimeoutMs = Some 5000 \<rparr>)"
  have n: "notWithin (pipelineTimeout (pm_config ?pm)) (finalized ?env)"
    by (simp add: notWithin_def pipelineTimeout_def or_default_def PoolManager_start_def
        PoolManager_new_def)
  have l: "launched ?env" by (simp add: launched_def)
  have t: "pipelineTimeout (pm_config ?pm) = 5000"
    by (simp add: pipelineTimeout_def or_default_def PoolManager_start_def PoolManager_new_def)
  from pipeline_timeout_rejects [OF n] l n t show ?thesis by (simp add: Let_def)
qed







text \<open>The double arithmetic shows: eleven of fifteen segments give 54, where the exact
  quotient would give 55; one of three gives 25.\<close>

lemma scaled_11_15: "scaled 11 15 = 54"
  by code_simp













section \<open>Properties of the job task of the bridge\<close>

text \<open>The \<^verbatim>\<open>try\<close> block and the calls it makes leave the two tables alone.\<close>

lemma tables_frame [simp]:
  "tables (watchJob u s) = tables s"
  "tables (kickJob u s) = tables s"
  "tables (clearJob u s) = tables s"
  "tables (cancelPoolJob u ok s) = tables s"
  "tables (snd (client f s)) = tables s"
  "tables (cleanupIfSet d ok s) = tables s"
  "tables (s\<lparr> dirs := x \<rparr>) = tables s"
  "tables (s\<lparr> poolManager := y \<rparr>) = tables s"
  by (simp_all add: tables_def watchJob_def kickJob_def clearJob_def cancelPoolJob_def client_def
      cleanupIfSet_def split: prod.splits option.splits)

lemma tables_onProgress [simp]: "tables (onProgress resp u p s) = tables s"
  by (simp add: onProgress_def)

lemma tables_fold_onProgress [simp]: "tables (fold (onProgress resp u) ps s) = tables s"
  by (induction ps arbitrary: s) simp_all

lemma tables_runPool [simp]: "tables (snd (runPool env u w s)) = tables s"
  by (simp add: runPool_def Let_def split: prod.splits)

lemma tables_finishJob [simp]: "tables (snd (finishJob env u w r s)) = tables s"
proof (cases "prepareResult (outputPath r) w (artifactEnv env)")
  case (Inl e)
  then show ?thesis by (simp add: finishJob_def)
next
  case (Inr res)
  obtain r2 s1 where c: "client (uploadResult u res (readArtifact env) (successResponse env)) s = (r2, s1)"
    by (cases "client (uploadResult u res (readArtifact env) (successResponse env)) s")
  then have "tables s1 = tables s" using tables_frame(5) [of _ s] by (metis snd_conv)
  with Inr c show ?thesis by (cases r2) (simp_all add: finishJob_def)
qed

lemma tables_try [simp]: "tables (snd (snd (snd (processJob_try env u jobType p s)))) = tables s"
proof (cases "translateJob jobType p (supernovao s)")
  case (Inl e)
  then show ?thesis by (simp add: processJob_try_def)
next
  case (Inr translated)
  note t = this
  show ?thesis
  proof (cases "mkdtempJob env")
    case (Inl m)
    with t show ?thesis by (simp add: processJob_try_def)
  next
    case (Inr tmp)
    note m = this
    show ?thesis
    proof (cases "downloadInput (download env) (downloadWrite env)")
      case (Some e)
      with t m show ?thesis by (simp add: processJob_try_def)
    next
      case None
      let ?w = "translated\<lparr> jobUUID := u, localInputPath := tmp @ ''/input.mp4'' \<rparr>"
      let ?s1 = "s\<lparr> dirs := insert tmp (dirs s) \<rparr>"
      obtain r s2 where rp: "runPool env u ?w ?s1 = (r, s2)" by (cases "runPool env u ?w ?s1")
      then have s2: "tables s2 = tables s" using tables_runPool [of env u ?w ?s1] by simp
      show ?thesis
      proof (cases r)
        case (Inl e)
        with t m None rp s2 show ?thesis by (simp add: processJob_try_def)
      next
        case (Inr poolResult)
        obtain err s3 where f: "finishJob env u ?w poolResult s2 = (err, s3)"
          by (cases "finishJob env u ?w poolResult s2")
        then have "tables s3 = tables s2" using tables_finishJob [of env u ?w poolResult s2] by simp
        with t m None rp s2 Inr f show ?thesis by (simp add: processJob_try_def)
      qed
    qed
  qed
qed

lemma keys_delete: "fst ` set (AList.delete k al) = fst ` set al - {k}"
  by (induction al) auto

lemma inBoth_tables: "inBoth t = fst ` set (fst (tables t)) \<inter> snd (tables t)"
  by (simp add: inBoth_def activeIds_def tables_def)

lemma tables_admit:
  "tables (admit u ty s) =
     (AList.update u \<lparr> bj_type = ty, bj_startTime = clock (rt s) \<rparr> (activeJobs s), failedJobs s)"
  by (simp add: tables_def admit_def)

lemma tables_catch:
  "t \<in> set (processJob_catch env u e s) \<Longrightarrow>
     tables t = tables s \<or> tables t = (activeJobs s, insert u (failedJobs s))"
  by (auto simp: processJob_catch_def Let_def)
     (simp_all add: tables_def markFailed_def clearJob_def cancelPoolJob_def client_def
       split: prod.splits)

lemma failed_last_catch:
  "failedJobs (last (s # processJob_catch env u e s)) = insert u (failedJobs s)"
  "activeJobs (last (s # processJob_catch env u e s)) = activeJobs s"
  by (simp_all add: processJob_catch_def Let_def markFailed_def clearJob_def cancelPoolJob_def
      client_def split: prod.splits)

lemma tables_finally:
  "t \<in> set (processJob_finally env u tmp poolTmp s) \<Longrightarrow>
     tables t = (AList.delete u (activeJobs s), failedJobs s)"
  by (auto simp: processJob_finally_def Let_def)
     (simp_all add: tables_def release_def cleanupIfSet_def split: option.splits)

lemma last_finally:
  "last (xs @ processJob_finally env u tmp poolTmp s) \<in> set (processJob_finally env u tmp poolTmp s)"
  by (simp add: processJob_finally_def Let_def)


lemma dirs_frame [simp]:
  "dirs (watchJob u s) = dirs s"
  "dirs (kickJob u s) = dirs s"
  "dirs (clearJob u s) = dirs s"
  "dirs (snd (client f s)) = dirs s"
  "dirs (admit u ty s) = dirs s"
  "dirs (markFailed u s) = dirs s"
  "dirs (release u s) = dirs s"
  by (simp_all add: watchJob_def kickJob_def clearJob_def client_def admit_def markFailed_def
      release_def split: prod.splits)

lemma poolManager_frame [simp]:
  "poolManager (watchJob u s) = poolManager s"
  "poolManager (kickJob u s) = poolManager s"
  "poolManager (clearJob u s) = poolManager s"
  "poolManager (snd (client f s)) = poolManager s"
  "poolManager (admit u ty s) = poolManager s"
  "poolManager (markFailed u s) = poolManager s"
  "poolManager (release u s) = poolManager s"
  by (simp_all add: watchJob_def kickJob_def clearJob_def client_def admit_def markFailed_def
      release_def split: prod.splits)

lemma onProgress_frame [simp]:
  "dirs (onProgress resp u p s) = dirs s"
  "poolManager (onProgress resp u p s) = poolManager s"
  by (simp_all add: onProgress_def)

lemma fold_onProgress_frame [simp]:
  "dirs (fold (onProgress resp u) ps s) = dirs s"
  "poolManager (fold (onProgress resp u) ps s) = poolManager s"
  by (induction ps arbitrary: s) simp_all

lemma PoolManager_processJob_effects:
  assumes "mkdtempPool env = Inr ptmp"
  shows "snd (snd (snd (PoolManager_processJob env w now (pm, ds)))) = insert ptmp ds"
    and "map_of (pm_activeJobs (fst (snd (snd (PoolManager_processJob env w now (pm, ds))))))
           (jobUUID w) = None"
  using assms
  by (simp_all add: PoolManager_processJob_def AList.delete_conv' split: prod.splits)

lemma runPool_effects:
  assumes "mkdtempPool (poolEnv env) = Inr ptmp" and "jobUUID w = u"
  shows "dirs (snd (runPool env u w s)) = insert ptmp (dirs s)"
    and "map_of (pm_activeJobs (poolManager (snd (runPool env u w s)))) u = None"
proof -
  let ?s1 = "watchJob u s"
  obtain r ps pm ds where pj:
    "PoolManager_processJob (poolEnv env) w (clock (rt ?s1)) (poolManager ?s1, dirs ?s1) = (r, ps, pm, ds)"
    by (cases "PoolManager_processJob (poolEnv env) w (clock (rt ?s1)) (poolManager ?s1, dirs ?s1)")
  from PoolManager_processJob_effects [OF assms(1), of w "clock (rt ?s1)" "poolManager ?s1" "dirs ?s1"] pj
  have "ds = insert ptmp (dirs s)" and "map_of (pm_activeJobs pm) u = None"
    using assms(2) by simp_all
  with pj show "dirs (snd (runPool env u w s)) = insert ptmp (dirs s)"
    and "map_of (pm_activeJobs (poolManager (snd (runPool env u w s)))) u = None"
    by (simp_all add: runPool_def)
qed

lemma runPool_fst:
  "fst (runPool env u w s) =
     fst (PoolManager_processJob (poolEnv env) w (clock (rt (watchJob u s))) (poolManager s, dirs s))"
  by (simp add: runPool_def Let_def split: prod.splits)

lemma runPool_rejects:
  assumes "notWithin (pipelineTimeout (pm_config (poolManager s))) (finalized (poolEnv env))"
  shows "isl (fst (runPool env u w s))"
  unfolding runPool_fst using assms by (rule processJob_rejects)

lemma cancelPoolJob_unknown:
  "map_of (pm_activeJobs (poolManager s)) u = None \<Longrightarrow> cancelPoolJob u ok s = s"
  by (simp add: cancelPoolJob_def cancelJob_def)

lemma try_pool_failure:
  assumes "translateJob ty p (supernovao s) = Inr tr" and "mkdtempJob env = Inr tmp"
    and "downloadInput (download env) (downloadWrite env) = None"
    and "fst (runPool env u (tr\<lparr> jobUUID := u, localInputPath := tmp @ ''/input.mp4'' \<rparr>)
                (s\<lparr> dirs := insert tmp (dirs s) \<rparr>)) = Inl e"
  shows "processJob_try env u ty p s =
           (Some e, Some tmp, None,
            snd (runPool env u (tr\<lparr> jobUUID := u, localInputPath := tmp @ ''/input.mp4'' \<rparr>)
                  (s\<lparr> dirs := insert tmp (dirs s) \<rparr>)))"
proof -
  let ?w = "tr\<lparr> jobUUID := u, localInputPath := tmp @ ''/input.mp4'' \<rparr>"
  let ?s1 = "s\<lparr> dirs := insert tmp (dirs s) \<rparr>"
  obtain r s2 where rp: "runPool env u ?w ?s1 = (r, s2)" by (cases "runPool env u ?w ?s1")
  with assms(4) have "r = Inl e" by simp
  with assms(1-3) rp show ?thesis by (simp add: processJob_try_def)
qed

lemma last_states:
  "Bridge_processJob env u ty p s =
     (let (err, tmp, poolTmp, s1) = processJob_try env u ty p (admit u ty s);
          s2 = (case err of None \<Rightarrow> s1
                | Some e \<Rightarrow> cancelPoolJob u (cancelRmOk env)
                              (clearJob u (markFailed u
                                (snd (client (postError u (message e) (errorResponse env)) s1)))))
      in cleanupIfSet poolTmp (rmPoolTempOk env)
           (cleanupIfSet tmp (rmJobTempOk env) (release u s2)))"
  by (simp add: Bridge_processJob_def processJob_states_def processJob_finally_def
      processJob_catch_def Let_def split: prod.splits option.splits)

lemma states_split:
  obtains err tmp poolTmp s1 where
    "processJob_try env u ty p (admit u ty s) = (err, tmp, poolTmp, s1)"
    "tables s1 = tables (admit u ty s)"
    "processJob_states env u ty p s =
       [admit u ty s, s1] @ (case err of None \<Rightarrow> [] | Some e \<Rightarrow> processJob_catch env u e s1) @
       processJob_finally env u tmp poolTmp
         (last (s1 # (case err of None \<Rightarrow> [] | Some e \<Rightarrow> processJob_catch env u e s1)))"
proof -
  obtain err tmp poolTmp s1 where t: "processJob_try env u ty p (admit u ty s) = (err, tmp, poolTmp, s1)"
    by (cases "processJob_try env u ty p (admit u ty s)")
  moreover have "tables s1 = tables (admit u ty s)"
    using tables_try [of env u ty p "admit u ty s"] t by simp
  moreover have "processJob_states env u ty p s =
       [admit u ty s, s1] @ (case err of None \<Rightarrow> [] | Some e \<Rightarrow> processJob_catch env u e s1) @
       processJob_finally env u tmp poolTmp
         (last (s1 # (case err of None \<Rightarrow> [] | Some e \<Rightarrow> processJob_catch env u e s1)))"
    using t by (simp add: processJob_states_def Let_def)
  ultimately show thesis by (rule that)
qed

lemma inBoth_admit: "inBoth (admit u ty s) \<subseteq> insert u (inBoth s)"
  by (auto simp: inBoth_def activeIds_def admit_def AList.dom_update)

lemma inBoth_admit_fresh: "u \<notin> failedJobs s \<Longrightarrow> inBoth (admit u ty s) = inBoth s"
  by (auto simp: inBoth_def activeIds_def admit_def AList.dom_update)

lemma inBoth_eq_tables: "tables t = tables s \<Longrightarrow> inBoth t = inBoth s"
  by (simp add: inBoth_tables)

lemma failing_window:
  assumes "fst (processJob_try env u ty p (admit u ty s)) = Some e"
  shows "u \<in> activeIds (processJob_states env u ty p s ! 3) \<and>
         u \<in> failedJobs (processJob_states env u ty p s ! 3)"
proof -
  obtain err tmp poolTmp s1 where
    t: "processJob_try env u ty p (admit u ty s) = (err, tmp, poolTmp, s1)" and
    tb: "tables s1 = tables (admit u ty s)" and
    st: "processJob_states env u ty p s =
       [admit u ty s, s1] @ (case err of None \<Rightarrow> [] | Some e \<Rightarrow> processJob_catch env u e s1) @
       processJob_finally env u tmp poolTmp
         (last (s1 # (case err of None \<Rightarrow> [] | Some e \<Rightarrow> processJob_catch env u e s1)))"
    by (rule states_split)
  from assms t have err: "err = Some e" by simp
  let ?c = "clearJob u (markFailed u (snd (client (postError u (message e) (errorResponse env)) s1)))"
  have "processJob_states env u ty p s ! 3 = ?c"
    unfolding st err by (simp add: processJob_catch_def Let_def)
  moreover have "activeJobs ?c = activeJobs s1" and "failedJobs ?c = insert u (failedJobs s1)"
    by (simp_all add: clearJob_def markFailed_def client_def split: prod.splits)
  moreover have "u \<in> fst ` set (activeJobs s1)"
    using tb by (simp add: tables_def admit_def AList.dom_update)
  ultimately show ?thesis by (simp add: activeIds_def)
qed

lemma more_frames [simp]:
  "supernovao (admit u ty s) = supernovao s"
  "rt (admit u ty s) = rt s"
  "watchdog (release u s) = watchdog s"
  "watchdog (cleanupIfSet d ok s) = watchdog s"
  "failedJobs (release u s) = failedJobs s"
  "failedJobs (cleanupIfSet d ok s) = failedJobs s"
  "failedJobs (clearJob u s) = failedJobs s"
  "failedJobs (markFailed u s) = insert u (failedJobs s)"
  "dirs (cleanupIfSet (Some q) ok s) = (if q = [] then dirs s else cleanupTemp q ok (dirs s))"
  "cleanupIfSet None ok s = s"
  by (simp_all add: admit_def release_def cleanupIfSet_def clearJob_def markFailed_def
      split: option.splits prod.splits)

lemma cleared_entry: "map_of (jobs (watchdog (clearJob u s))) u = None"
  by (simp add: clearJob_def clear_def AList.delete_conv' split: option.splits)

lemma pipeline_failure_outcome:
  assumes tr: "translateJob ty p (supernovao s) = Inr tr" and mk: "mkdtempJob env = Inr tmp"
    and ne: "tmp \<noteq> []"
    and dl: "downloadInput (download env) (downloadWrite env) = None"
    and pt: "mkdtempPool (poolEnv env) = Inr ptmp"
    and nf: "notWithin (pipelineTimeout (pm_config (poolManager s))) (finalized (poolEnv env))"
  shows "dirs (Bridge_processJob env u ty p s) =
           cleanupTemp tmp (rmJobTempOk env) (insert ptmp (insert tmp (dirs s)))"
    and "u \<in> failedJobs (Bridge_processJob env u ty p s)"
    and "map_of (jobs (watchdog (Bridge_processJob env u ty p s))) u = None"
proof -
  let ?s0 = "admit u ty s"
  let ?w = "tr\<lparr> jobUUID := u, localInputPath := tmp @ ''/input.mp4'' \<rparr>"
  let ?s1 = "?s0\<lparr> dirs := insert tmp (dirs s) \<rparr>"
  let ?s2 = "snd (runPool env u ?w ?s1)"
  have "isl (fst (runPool env u ?w ?s1))" using nf by (intro runPool_rejects) simp
  then obtain e where e: "fst (runPool env u ?w ?s1) = Inl e" by (auto simp: isl_def)
  have tried: "processJob_try env u ty p ?s0 = (Some e, Some tmp, None, ?s2)"
    using try_pool_failure [of ty p ?s0 tr env tmp u e] tr mk dl e by simp
  let ?s3 = "clearJob u (markFailed u (snd (client (postError u (message e) (errorResponse env)) ?s2)))"
  have unknown: "map_of (pm_activeJobs (poolManager ?s3)) u = None"
    using runPool_effects(2) [OF pt, of ?w u ?s1] by simp
  have cp: "cancelPoolJob u (cancelRmOk env) ?s3 = ?s3"
    using unknown by (rule cancelPoolJob_unknown)
  have fin: "Bridge_processJob env u ty p s = cleanupIfSet (Some tmp) (rmJobTempOk env) (release u ?s3)"
    by (simp add: last_states tried cp)
  have "dirs ?s3 = insert ptmp (insert tmp (dirs s))"
    using runPool_effects(1) [OF pt, of ?w u ?s1] by simp
  then show "dirs (Bridge_processJob env u ty p s) =
           cleanupTemp tmp (rmJobTempOk env) (insert ptmp (insert tmp (dirs s)))"
    using ne by (simp add: fin)
  show "u \<in> failedJobs (Bridge_processJob env u ty p s)" by (simp add: fin)
  show "map_of (jobs (watchdog (Bridge_processJob env u ty p s))) u = None"
    by (simp add: fin cleared_entry)
qed

lemma finished_not_active: "u \<notin> activeIds (Bridge_processJob env u ty p s)"
  by (simp add: last_states activeIds_def release_def cleanupIfSet_def keys_delete Let_def
      split: prod.splits option.splits)

lemma length_states:
  "length (processJob_states env u ty p s) =
     (if fst (processJob_try env u ty p (admit u ty s)) = None then 5 else 8)"
  by (simp add: processJob_states_def processJob_catch_def processJob_finally_def Let_def
      split: prod.splits option.splits)

text \<open>The bridge of the examples: started with a runner token and a limit of two jobs,
  after it has accepted the job \<open>''j1''\<close> with the token \<open>''tok''\<close>.\<close>

lemma example_bridge:
  fixes cfg s
  defines "cfg \<equiv> \<lparr> cfg_runnerToken = Some ''rt'', cfg_maxConcurrentJobs = 2, cfg_timeoutMs = None,
          cfg_supernovao = \<lparr> storage = None, cfg_bitrate = None, cfg_level = None,
                             segmentTimeoutMs = None \<rparr> \<rparr>"
  defines "s \<equiv> snd (client (acceptJob ''j1'' (FetchResponse 200 ''tok''))
                 (projr (Bridge_start cfg (Bridge_new cfg))))"
  shows "supernovao s = \<lparr> storage = None, cfg_bitrate = None, cfg_level = None,
                           segmentTimeoutMs = None \<rparr>"
    and "pm_config (poolManager s) = \<lparr> storage = None, cfg_bitrate = None, cfg_level = None,
                           segmentTimeoutMs = None \<rparr>"
    and "dirs s = {}" and "activeJobs s = []" and "failedJobs s = {}"
  by (simp_all add: s_def cfg_def client_def acceptJob_def res_ok_def Bridge_start_def
      Bridge_new_def PoolManager_start_def PoolManager_new_def RunnerClient_new_def)

text \<open>
  Claim C3 fails on the code where the pipeline stage fails.  The job \<open>''j1''\<close> is
  translated, its directory \<open>''/tmp/ptsn-j1''\<close> made and its input downloaded; the pool
  manager makes its own directory \<open>''/tmp/ptsn-pool''\<close>, launches the pool and never sees
  \<^verbatim>\<open>'finalized'\<close>, so its run rejects with the timeout.  When \<open>processJob\<close> has
  returned, the job is in \<open>failedJobs\<close>, its watchdog entry is cleared, it is no longer
  active and the download directory is gone; but the pipeline's directory is still on
  disk.  \<^verbatim>\<open>poolTempDir\<close> is assigned only from the result of a run that returned, and
  \<^verbatim>\<open>cancelJob\<close> finds no entry, because the pool manager's own \<^verbatim>\<open>finally\<close> has
  deleted it.
\<close>

theorem pipeline_failure_leaves_workspace:
  "let cfg = \<lparr> cfg_runnerToken = Some ''rt'', cfg_maxConcurrentJobs = 2, cfg_timeoutMs = None,
          cfg_supernovao = \<lparr> storage = None, cfg_bitrate = None, cfg_level = None,
                             segmentTimeoutMs = None \<rparr> \<rparr>;
       s = snd (client (acceptJob ''j1'' (FetchResponse 200 ''tok''))
                 (projr (Bridge_start cfg (Bridge_new cfg))));
       env = \<lparr> mkdtempJob = Inr ''/tmp/ptsn-j1'', download = FetchResponse 200 [], downloadWrite = None,
          poolEnv = \<lparr> mkdtempPool = Inr ''/tmp/ptsn-pool'', poolHandle = 1,
            createPoolDrive = Inr ''ab12'', writeSource = None, extractMetadata = None,
            segmentation = Inr 3, demuxTracks = None, putSegments = None, putTracks = None,
            loadConfig = Inr (True, 3), launchPool = None, segmentsComplete = [1],
            finalized = None, readOutput = None, destroyPool = None \<rparr>,
          updateResponse = (\<lambda>percent. FetchResponse 204 []),
          artifactEnv = \<lparr> a_file = Missing, a_stat = Inl ''ENOENT'',
                          a_ffprobe = FfprobeError ''ENOENT'' \<rparr>,
          readArtifact = None, successResponse = FetchResponse 204 [],
          errorResponse = FetchResponse 204 [], cancelRmOk = True, rmJobTempOk = True,
          rmPoolTempOk = True \<rparr>;
       s' = Bridge_processJob env ''j1'' ''vod-web-video-transcoding''
         \<lparr> p_input = Some \<lparr> videoFileUrl = Some ''http://pt/in.mp4'', audioFileUrl = None \<rparr>,
          p_output = Some \<lparr> resolution = Some 720, fps = Some 30 \<rparr> \<rparr> s
   in dirs s = {} \<and> dirs s' = {''/tmp/ptsn-pool''} \<and> ''j1'' \<in> failedJobs s' \<and>
      map_of (jobs (watchdog s')) ''j1'' = None \<and> ''j1'' \<notin> activeIds s'"
proof -
  define cfg where "cfg = \<lparr> cfg_runnerToken = Some ''rt'', cfg_maxConcurrentJobs = 2, cfg_timeoutMs = None,
          cfg_supernovao = \<lparr> storage = None, cfg_bitrate = None, cfg_level = None,
                             segmentTimeoutMs = None \<rparr> \<rparr>"
  define s where "s = snd (client (acceptJob ''j1'' (FetchResponse 200 ''tok''))
                 (projr (Bridge_start cfg (Bridge_new cfg))))"
  let ?env = "\<lparr> mkdtempJob = Inr ''/tmp/ptsn-j1'', download = FetchResponse 200 [], downloadWrite = None,
          poolEnv = \<lparr> mkdtempPool = Inr ''/tmp/ptsn-pool'', poolHandle = 1,
            createPoolDrive = Inr ''ab12'', writeSource = None, extractMetadata = None,
            segmentation = Inr 3, demuxTracks = None, putSegments = None, putTracks = None,
            loadConfig = Inr (True, 3), launchPool = None, segmentsComplete = [1],
            finalized = None, readOutput = None, destroyPool = None \<rparr>,
          updateResponse = (\<lambda>percent. FetchResponse 204 []),
          artifactEnv = \<lparr> a_file = Missing, a_stat = Inl ''ENOENT'',
                          a_ffprobe = FfprobeError ''ENOENT'' \<rparr>,
          readArtifact = None, successResponse = FetchResponse 204 [],
          errorResponse = FetchResponse 204 [], cancelRmOk = True, rmJobTempOk = True,
          rmPoolTempOk = True \<rparr>"
  let ?p = "\<lparr> p_input = Some \<lparr> videoFileUrl = Some ''http://pt/in.mp4'', audioFileUrl = None \<rparr>,
          p_output = Some \<lparr> resolution = Some 720, fps = Some 30 \<rparr> \<rparr>"
  note ex = example_bridge [folded cfg_def, folded s_def]
  have tr: "translateJob ''vod-web-video-transcoding'' ?p (supernovao s) =
      Inr \<lparr> wf_type = ''vod-web'', inputUrl = Some ''http://pt/in.mp4'', wf_resolution = Some 720,
            wf_fps = Some 30, bitrate = ''200000'', level = ''5.1'', outputFormat = ''mp4'',
            jobUUID = [], localInputPath = [] \<rparr>"
    unfolding ex(1)
    by (simp add: translateJob_def isSupported_def SUPPORTED_TYPES_def TYPE_MAP_def FORMAT_MAP_def
        or_string_def)
  have mk: "mkdtempJob ?env = Inr ''/tmp/ptsn-j1''" and ne: "''/tmp/ptsn-j1'' \<noteq> []"
    and dl: "downloadInput (download ?env) (downloadWrite ?env) = None"
    and pt: "mkdtempPool (poolEnv ?env) = Inr ''/tmp/ptsn-pool''"
    by (simp_all add: downloadInput_def res_ok_def)
  have nf: "notWithin (pipelineTimeout (pm_config (poolManager s))) (finalized (poolEnv ?env))"
    by (simp add: notWithin_def)
  note out = pipeline_failure_outcome [OF tr mk ne dl pt nf, of "''j1''"]
  have "dirs (Bridge_processJob ?env ''j1'' ''vod-web-video-transcoding'' ?p s) = {''/tmp/ptsn-pool''}"
    unfolding out(1) ex(3) by (auto simp: cleanupTemp_def rm_def)
  with out(2,3) finished_not_active [of "''j1''" ?env "''vod-web-video-transcoding''" ?p s] ex(3)
  show ?thesis unfolding Let_def cfg_def [symmetric] s_def [symmetric] by (intro conjI)
qed

text \<open>
  Claim C4 fails on the code.  The job \<open>''j1''\<close> arrives with a payload that has no
  input, so the translation throws.  In the fourth state of the task (index 3), in which
  the \<^verbatim>\<open>catch\<close> block awaits the cancellation, the id is in the failed set and still
  in the active table.
\<close>

theorem failed_job_is_still_active:
  "let cfg = \<lparr> cfg_runnerToken = Some ''rt'', cfg_maxConcurrentJobs = 2, cfg_timeoutMs = None,
          cfg_supernovao = \<lparr> storage = None, cfg_bitrate = None, cfg_level = None,
                             segmentTimeoutMs = None \<rparr> \<rparr>;
       s = snd (client (acceptJob ''j1'' (FetchResponse 200 ''tok''))
                 (projr (Bridge_start cfg (Bridge_new cfg))));
       env = \<lparr> mkdtempJob = Inr ''/tmp/ptsn-j1'', download = FetchResponse 200 [], downloadWrite = None,
          poolEnv = \<lparr> mkdtempPool = Inr ''/tmp/ptsn-pool'', poolHandle = 1,
            createPoolDrive = Inr ''ab12'', writeSource = None, extractMetadata = None,
            segmentation = Inr 3, demuxTracks = None, putSegments = None, putTracks = None,
            loadConfig = Inr (True, 3), launchPool = None, segmentsComplete = [1],
            finalized = None, readOutput = None, destroyPool = None \<rparr>,
          updateResponse = (\<lambda>percent. FetchResponse 204 []),
          artifactEnv = \<lparr> a_file = Missing, a_stat = Inl ''ENOENT'',
                          a_ffprobe = FfprobeError ''ENOENT'' \<rparr>,
          readArtifact = None, successResponse = FetchResponse 204 [],
          errorResponse = FetchResponse 204 [], cancelRmOk = True, rmJobTempOk = True,
          rmPoolTempOk = True \<rparr>;
       t = processJob_states env ''j1'' ''vod-web-video-transcoding'' \<lparr> p_input = None, p_output = None \<rparr> s ! 3
   in ''j1'' \<in> activeIds t \<and> ''j1'' \<in> failedJobs t"
proof -
  define cfg where "cfg = \<lparr> cfg_runnerToken = Some ''rt'', cfg_maxConcurrentJobs = 2, cfg_timeoutMs = None,
          cfg_supernovao = \<lparr> storage = None, cfg_bitrate = None, cfg_level = None,
                             segmentTimeoutMs = None \<rparr> \<rparr>"
  define s where "s = snd (client (acceptJob ''j1'' (FetchResponse 200 ''tok''))
                 (projr (Bridge_start cfg (Bridge_new cfg))))"
  let ?env = "\<lparr> mkdtempJob = Inr ''/tmp/ptsn-j1'', download = FetchResponse 200 [], downloadWrite = None,
          poolEnv = \<lparr> mkdtempPool = Inr ''/tmp/ptsn-pool'', poolHandle = 1,
            createPoolDrive = Inr ''ab12'', writeSource = None, extractMetadata = None,
            segmentation = Inr 3, demuxTracks = None, putSegments = None, putTracks = None,
            loadConfig = Inr (True, 3), launchPool = None, segmentsComplete = [1],
            finalized = None, readOutput = None, destroyPool = None \<rparr>,
          updateResponse = (\<lambda>percent. FetchResponse 204 []),
          artifactEnv = \<lparr> a_file = Missing, a_stat = Inl ''ENOENT'',
                          a_ffprobe = FfprobeError ''ENOENT'' \<rparr>,
          readArtifact = None, successResponse = FetchResponse 204 [],
          errorResponse = FetchResponse 204 [], cancelRmOk = True, rmJobTempOk = True,
          rmPoolTempOk = True \<rparr>"
  have "fst (processJob_try ?env ''j1'' ''vod-web-video-transcoding'' \<lparr> p_input = None, p_output = None \<rparr>
          (admit ''j1'' ''vod-web-video-transcoding'' s)) =
        Some (PayloadInputMissing ''vod-web-video-transcoding'')"
    by (simp add: processJob_try_def translateJob_def isSupported_def SUPPORTED_TYPES_def)
  from failing_window [OF this]
  show ?thesis unfolding Let_def cfg_def [symmetric] s_def [symmetric] .
qed

text \<open>
  Claim C4 as amended.  In every state that the task of a job \<open>u\<close> passes, no id other
  than \<open>u\<close> is in both collections unless it was so before the task began.  When the
  task has ended, \<open>u\<close> is not in the active table, and the ids in both collections are
  those from before the task, without \<open>u\<close>.  If \<open>u\<close> is not in the failed set when the
  task begins (the poll admits no other), then \<open>u\<close> is not in both during the \<^verbatim>\<open>try\<close>
  block either: it can be in both only from the \<^verbatim>\<open>catch\<close> block's addition to the
  failed set until the \<^verbatim>\<open>finally\<close> block deletes it from the active table.
\<close>

theorem in_both_only_while_failing:
  "(\<forall>t \<in> set (processJob_states env u ty p s). inBoth t \<subseteq> insert u (inBoth s)) \<and>
   u \<notin> activeIds (Bridge_processJob env u ty p s) \<and>
   inBoth (Bridge_processJob env u ty p s) = inBoth s - {u} \<and>
   (u \<notin> failedJobs s \<longrightarrow>
      inBoth (processJob_states env u ty p s ! 0) = inBoth s \<and>
      inBoth (processJob_states env u ty p s ! 1) = inBoth s)"
proof -
  obtain err tmp poolTmp s1 where
    t: "processJob_try env u ty p (admit u ty s) = (err, tmp, poolTmp, s1)" and
    tb: "tables s1 = tables (admit u ty s)" and
    st: "processJob_states env u ty p s =
       [admit u ty s, s1] @ (case err of None \<Rightarrow> [] | Some e \<Rightarrow> processJob_catch env u e s1) @
       processJob_finally env u tmp poolTmp
         (last (s1 # (case err of None \<Rightarrow> [] | Some e \<Rightarrow> processJob_catch env u e s1)))"
    by (rule states_split)
  let ?caught = "case err of None \<Rightarrow> [] | Some e \<Rightarrow> processJob_catch env u e s1"
  let ?s2 = "last (s1 # ?caught)"
  let ?A = "AList.update u \<lparr> bj_type = ty, bj_startTime = clock (rt s) \<rparr> (activeJobs s)"
  have t1: "tables s1 = (?A, failedJobs s)" using tb by (simp add: tables_admit)
  then have a1: "activeJobs s1 = ?A" and f1: "failedJobs s1 = failedJobs s"
    by (simp_all add: tables_def)
  have ids: "fst ` set ?A = insert u (activeIds s)"
    by (simp add: AList.dom_update activeIds_def)
  have b0: "inBoth (admit u ty s) \<subseteq> insert u (inBoth s)" by (rule inBoth_admit)
  have b1: "inBoth s1 \<subseteq> insert u (inBoth s)"
    using inBoth_eq_tables [OF tb] b0 by simp
  have bc: "inBoth t \<subseteq> insert u (inBoth s)" if "t \<in> set ?caught" for t
  proof (cases err)
    case None
    with that show ?thesis by simp
  next
    case (Some e)
    with that tables_catch [of t env u e s1]
    have "tables t = tables s1 \<or> tables t = (activeJobs s1, insert u (failedJobs s1))" by simp
    then have "activeJobs t = ?A" and "failedJobs t \<subseteq> insert u (failedJobs s)"
      using a1 f1 by (auto simp: tables_def)
    then have "activeIds t = insert u (activeIds s)" and "failedJobs t \<subseteq> insert u (failedJobs s)"
      using ids by (simp_all add: activeIds_def)
    then show ?thesis unfolding inBoth_def by blast
  qed
  have a2: "activeJobs ?s2 = ?A"
    and f2: "failedJobs ?s2 = failedJobs s \<or> failedJobs ?s2 = insert u (failedJobs s)"
  proof -
    show "activeJobs ?s2 = ?A"
    proof (cases err)
      case None
      then show ?thesis using a1 by simp
    next
      case (Some e)
      then show ?thesis using failed_last_catch(2) [of s1 env u e] a1 by (simp only: option.case)
    qed
    show "failedJobs ?s2 = failedJobs s \<or> failedJobs ?s2 = insert u (failedJobs s)"
    proof (cases err)
      case None
      then show ?thesis using f1 by simp
    next
      case (Some e)
      then show ?thesis using failed_last_catch(1) [of s1 env u e] f1 by (simp only: option.case) simp
    qed
  qed
  have bf: "inBoth t = inBoth s - {u}" if "t \<in> set (processJob_finally env u tmp poolTmp ?s2)" for t
  proof -
    from tables_finally [OF that]
    have "activeJobs t = AList.delete u (activeJobs ?s2)" and ft: "failedJobs t = failedJobs ?s2"
      unfolding tables_def by blast+
    then have "activeJobs t = AList.delete u ?A" by (simp only: a2)
    then have "activeIds t = insert u (activeIds s) - {u}"
      using ids by (simp only: activeIds_def keys_delete)
    with ft f2 show ?thesis unfolding inBoth_def by blast
  qed
  have af: "u \<notin> activeIds t" if "t \<in> set (processJob_finally env u tmp poolTmp ?s2)" for t
    using tables_finally [OF that] by (simp add: tables_def activeIds_def keys_delete)
  have lastin: "Bridge_processJob env u ty p s \<in> set (processJob_finally env u tmp poolTmp ?s2)"
    unfolding Bridge_processJob_def st
    using last_finally [of "[admit u ty s, s1] @ ?caught" env u tmp poolTmp ?s2] by simp
  have all: "\<forall>t \<in> set (processJob_states env u ty p s). inBoth t \<subseteq> insert u (inBoth s)"
    unfolding st using b0 b1 bc bf by auto
  have fresh: "inBoth (processJob_states env u ty p s ! 0) = inBoth s \<and>
      inBoth (processJob_states env u ty p s ! 1) = inBoth s" if "u \<notin> failedJobs s"
    unfolding st using inBoth_admit_fresh [OF that] inBoth_eq_tables [OF tb] by simp
  from all af [OF lastin] bf [OF lastin] fresh show ?thesis by blast
qed


theorem in_both_only_while_failing_witness:
  "let cfg = \<lparr> cfg_runnerToken = Some ''rt'', cfg_maxConcurrentJobs = 2, cfg_timeoutMs = None,
          cfg_supernovao = \<lparr> storage = None, cfg_bitrate = None, cfg_level = None,
                             segmentTimeoutMs = None \<rparr> \<rparr>;
       s = snd (client (acceptJob ''j1'' (FetchResponse 200 ''tok''))
                 (projr (Bridge_start cfg (Bridge_new cfg))));
       env = \<lparr> mkdtempJob = Inr ''/tmp/ptsn-j1'', download = FetchResponse 200 [], downloadWrite = None,
          poolEnv = \<lparr> mkdtempPool = Inr ''/tmp/ptsn-pool'', poolHandle = 1,
            createPoolDrive = Inr ''ab12'', writeSource = None, extractMetadata = None,
            segmentation = Inr 3, demuxTracks = None, putSegments = None, putTracks = None,
            loadConfig = Inr (True, 3), launchPool = None, segmentsComplete = [1],
            finalized = None, readOutput = None, destroyPool = None \<rparr>,
          updateResponse = (\<lambda>percent. FetchResponse 204 []),
          artifactEnv = \<lparr> a_file = Missing, a_stat = Inl ''ENOENT'',
                          a_ffprobe = FfprobeError ''ENOENT'' \<rparr>,
          readArtifact = None, successResponse = FetchResponse 204 [],
          errorResponse = FetchResponse 204 [], cancelRmOk = True, rmJobTempOk = True,
          rmPoolTempOk = True \<rparr>;
       states = processJob_states env ''j1'' ''vod-web-video-transcoding'' \<lparr> p_input = None, p_output = None \<rparr> s
   in ''j1'' \<notin> failedJobs s \<and> inBoth s = {} \<and> states ! 3 \<in> set states \<and>
      inBoth (states ! 0) = {} \<and> inBoth (states ! 1) = {} \<and> inBoth (states ! 3) = {''j1''} \<and>
      inBoth (Bridge_processJob env ''j1'' ''vod-web-video-transcoding'' \<lparr> p_input = None, p_output = None \<rparr> s) = {} \<and>
      ''j1'' \<notin> activeIds (Bridge_processJob env ''j1'' ''vod-web-video-transcoding''
                              \<lparr> p_input = None, p_output = None \<rparr> s)"
proof -
  define cfg where "cfg = \<lparr> cfg_runnerToken = Some ''rt'', cfg_maxConcurrentJobs = 2, cfg_timeoutMs = None,
          cfg_supernovao = \<lparr> storage = None, cfg_bitrate = None, cfg_level = None,
                             segmentTimeoutMs = None \<rparr> \<rparr>"
  define s where "s = snd (client (acceptJob ''j1'' (FetchResponse 200 ''tok''))
                 (projr (Bridge_start cfg (Bridge_new cfg))))"
  let ?env = "\<lparr> mkdtempJob = Inr ''/tmp/ptsn-j1'', download = FetchResponse 200 [], downloadWrite = None,
          poolEnv = \<lparr> mkdtempPool = Inr ''/tmp/ptsn-pool'', poolHandle = 1,
            createPoolDrive = Inr ''ab12'', writeSource = None, extractMetadata = None,
            segmentation = Inr 3, demuxTracks = None, putSegments = None, putTracks = None,
            loadConfig = Inr (True, 3), launchPool = None, segmentsComplete = [1],
            finalized = None, readOutput = None, destroyPool = None \<rparr>,
          updateResponse = (\<lambda>percent. FetchResponse 204 []),
          artifactEnv = \<lparr> a_file = Missing, a_stat = Inl ''ENOENT'',
                          a_ffprobe = FfprobeError ''ENOENT'' \<rparr>,
          readArtifact = None, successResponse = FetchResponse 204 [],
          errorResponse = FetchResponse 204 [], cancelRmOk = True, rmJobTempOk = True,
          rmPoolTempOk = True \<rparr>"
  let ?ty = "''vod-web-video-transcoding''"
  let ?p = "\<lparr> p_input = None, p_output = None \<rparr>"
  let ?states = "processJob_states ?env ''j1'' ?ty ?p s"
  note ex = example_bridge [folded cfg_def, folded s_def]
  have nf: "''j1'' \<notin> failedJobs s" and nb: "inBoth s = {}"
    by (simp_all add: ex inBoth_def activeIds_def)
  have failed: "fst (processJob_try ?env ''j1'' ?ty ?p (admit ''j1'' ?ty s)) =
        Some (PayloadInputMissing ?ty)"
    by (simp add: processJob_try_def translateJob_def isSupported_def SUPPORTED_TYPES_def)
  then have "length ?states = 8" by (simp add: length_states)
  then have mem: "?states ! 3 \<in> set ?states" by simp
  from failing_window [OF failed] have "''j1'' \<in> inBoth (?states ! 3)" by (simp add: inBoth_def)
  with in_both_only_while_failing [of ?env "''j1''" ?ty ?p s] nf nb mem
  have "inBoth (?states ! 0) = {}" "inBoth (?states ! 1) = {}" "inBoth (?states ! 3) = {''j1''}"
    "inBoth (Bridge_processJob ?env ''j1'' ?ty ?p s) = {}"
    "''j1'' \<notin> activeIds (Bridge_processJob ?env ''j1'' ?ty ?p s)"
    by auto
  with nf nb mem show ?thesis unfolding Let_def cfg_def [symmetric] s_def [symmetric] by (intro conjI)
qed

section \<open>Properties of the poll cycle\<close>

text \<open>The steps of the running tasks take jobs away from the active table or leave it as
  it is; an admission adds at most one; none changes the limit.\<close>

lemma taskStep_shrinks:
  "length (activeJobs (taskStep x s)) \<le> length (activeJobs s) \<and>
   maxConcurrentJobs (taskStep x s) = maxConcurrentJobs s"
  by (cases x) (simp_all add: markFailed_def release_def AList.length_delete_le)

lemma interfere_shrinks:
  "length (activeJobs (interfere steps s)) \<le> length (activeJobs s) \<and>
   maxConcurrentJobs (interfere steps s) = maxConcurrentJobs s"
  unfolding interfere_def
proof (induction steps arbitrary: s)
  case Nil
  then show ?case by simp
next
  case (Cons x xs)
  from Cons.IH [of "taskStep x s"] taskStep_shrinks [of x s] show ?case by simp
qed

lemma client_keeps:
  "activeJobs (snd (client f s)) = activeJobs s \<and>
   maxConcurrentJobs (snd (client f s)) = maxConcurrentJobs s"
  by (simp add: client_def split: prod.splits)

lemma admit_grows:
  "length (activeJobs (admit u ty s)) \<le> Suc (length (activeJobs s)) \<and>
   maxConcurrentJobs (admit u ty s) = maxConcurrentJobs s"
  by (simp add: admit_def length_update)

lemma poll_loop_limit:
  "withinLimit (maxConcurrentJobs s) (fst (poll_loop env i js s)) \<and>
   belowLimit (maxConcurrentJobs s) (butlast (fst (poll_loop env i js s))) \<and>
   subseq (map fst (fst (poll_loop env i js s))) js"
proof (induction js arbitrary: i s)
  case Nil
  then show ?case by (simp add: withinLimit_def belowLimit_def)
next
  case (Cons job rest)
  show ?case
  proof (cases "length (activeJobs s) \<ge> maxConcurrentJobs s \<or> \<not> isSupported (j_type job) \<or>
      j_uuid job \<in> failedJobs s")
    case True
    then show ?thesis using Cons.IH [of s "i + 1"]
      by (auto simp: withinLimit_def belowLimit_def)
  next
    case False
    then have room: "length (activeJobs s) < maxConcurrentJobs s"
      and sup: "isSupported (j_type job)" and nf: "j_uuid job \<notin> failedJobs s" by simp_all
    obtain r s1 where c: "client (acceptJob (j_uuid job) (acceptResult env i)) s = (r, s1)"
      by (cases "client (acceptJob (j_uuid job) (acceptResult env i)) s")
    let ?s2 = "interfere (duringAccept env i) s1"
    let ?s3 = "admit (j_uuid job) (j_type job) ?s2"
    from client_keeps [of _ s] c have k1: "activeJobs s1 = activeJobs s"
      "maxConcurrentJobs s1 = maxConcurrentJobs s" by (metis snd_conv)+
    from interfere_shrinks [of "duringAccept env i" s1] k1
    have k2: "length (activeJobs ?s2) \<le> length (activeJobs s)"
      "maxConcurrentJobs ?s2 = maxConcurrentJobs s" by simp_all
    from admit_grows [of "j_uuid job" "j_type job" ?s2] k2 room
    have k3: "length (activeJobs ?s3) \<le> maxConcurrentJobs s"
      "maxConcurrentJobs ?s3 = maxConcurrentJobs s" by simp_all
    show ?thesis
    proof (cases r)
      case (Inl e)
      with room sup nf c show ?thesis by (simp add: withinLimit_def belowLimit_def)
    next
      case (Inr x)
      obtain admitted s4 where l: "poll_loop env (i + 1) rest ?s3 = (admitted, s4)"
        by (cases "poll_loop env (i + 1) rest ?s3")
      from Cons.IH [of ?s3 "i + 1"] l k3
      have ih: "withinLimit (maxConcurrentJobs s) admitted"
        "belowLimit (maxConcurrentJobs s) (butlast admitted)"
        "subseq (map fst admitted) rest" by simp_all
      have res: "fst (poll_loop env i (job # rest) s) = (job, ?s3) # admitted"
        using room sup nf c Inr l by simp
      have full: "admitted = []" if "\<not> length (activeJobs ?s3) < maxConcurrentJobs s"
      proof (cases rest)
        case Nil
        with l show ?thesis by simp
      next
        case (Cons j js')
        with l that k3 show ?thesis by simp
      qed
      show ?thesis unfolding res using ih k3 full
        by (cases "length (activeJobs ?s3) < maxConcurrentJobs s")
           (auto simp: withinLimit_def belowLimit_def)
    qed
  qed
qed

lemma interfere_max [simp]: "maxConcurrentJobs (interfere steps s) = maxConcurrentJobs s"
  using interfere_shrinks by blast

text \<open>
  Claim C2.  \<open>poll\<close> does nothing (it returns the state as it is, with no admission
  and no request) when the bridge is not running, when the health monitor is not healthy,
  or when the active jobs have reached the limit.  Otherwise, right after each admission
  of the cycle the number of active jobs is at most the limit, whatever the running job
  tasks do to the tables while the cycle waits; every admission but the last leaves room
  below the limit, so the cycle admits nothing after the one that reaches it; and the
  admitted jobs are a subsequence of the jobs the queue returned, in its order.
\<close>

theorem poll_admission_within_limit:
  "(\<not> isRunning s \<or> \<not> isHealthy (healthMonitor s) \<or>
      maxConcurrentJobs s \<le> length (activeJobs s) \<longrightarrow> poll env s = ([], s)) \<and>
   withinLimit (maxConcurrentJobs s) (fst (poll env s)) \<and>
   belowLimit (maxConcurrentJobs s) (butlast (fst (poll env s))) \<and>
   subseq (map fst (fst (poll env s))) (offered env)"
proof (cases "\<not> isRunning s \<or> \<not> isHealthy (healthMonitor s) \<or>
      maxConcurrentJobs s \<le> length (activeJobs s)")
  case True
  then have "poll env s = ([], s)" by (auto simp: poll_def)
  then show ?thesis by (simp add: withinLimit_def belowLimit_def)
next
  case False
  obtain r c reqs where rq: "requestJob (requestJobResult env) (runnerClient s) = (r, c, reqs)"
    by (cases "requestJob (requestJobResult env) (runnerClient s)")
  let ?s1 = "interfere (duringRequest env) (s\<lparr> runnerClient := c, requests := requests s @ reqs \<rparr>)"
  have m: "maxConcurrentJobs ?s1 = maxConcurrentJobs s" by simp
  show ?thesis
  proof (cases r)
    case (Inl e)
    with False rq show ?thesis by (simp add: poll_def withinLimit_def belowLimit_def)
  next
    case (Inr availableJobs)
    show ?thesis
    proof (cases availableJobs)
      case None
      with False rq Inr show ?thesis by (simp add: poll_def withinLimit_def belowLimit_def)
    next
      case (Some js)
      with rq Inr have "offered env = js"
        by (auto simp: offered_def requestJob_def split: request_result.splits)
      moreover have "poll env s = poll_loop env 0 js ?s1"
        using False rq Inr Some by (simp add: poll_def)
      ultimately show ?thesis using False poll_loop_limit [of ?s1 env 0 js] m by simp
    qed
  qed
qed

text \<open>A poll of a fresh bridge with a limit of two jobs: the queue offers four jobs, the
  second of a type that is not supported.  The first and the third are admitted, and the
  loop stops before the fourth.\<close>

lemma example_poll:
  fixes cfg s env
  defines "cfg \<equiv> \<lparr> cfg_runnerToken = Some ''rt'', cfg_maxConcurrentJobs = 2, cfg_timeoutMs = None,
          cfg_supernovao = \<lparr> storage = None, cfg_bitrate = None, cfg_level = None,
                             segmentTimeoutMs = None \<rparr> \<rparr>"
  defines "s \<equiv> projr (Bridge_start cfg (Bridge_new cfg))"
  defines "env \<equiv> \<lparr> requestJobResult = RequestOk (Some
            [\<lparr> j_uuid = ''j1'', j_type = ''vod-web-video-transcoding'',
               j_payload = \<lparr> p_input = None, p_output = None \<rparr> \<rparr>,
             \<lparr> j_uuid = ''j2'', j_type = ''live-rtmp-hls-transcoding'',
               j_payload = \<lparr> p_input = None, p_output = None \<rparr> \<rparr>,
             \<lparr> j_uuid = ''j3'', j_type = ''vod-hls-transcoding'',
               j_payload = \<lparr> p_input = None, p_output = None \<rparr> \<rparr>,
             \<lparr> j_uuid = ''j4'', j_type = ''vod-hls-transcoding'',
               j_payload = \<lparr> p_input = None, p_output = None \<rparr> \<rparr>]),
          duringRequest = [], acceptResult = (\<lambda>i. FetchResponse 200 ''tok''),
          duringAccept = (\<lambda>i. []) \<rparr>"
  shows "map (\<lambda>(job, t). (j_uuid job, map fst (activeJobs t))) (fst (poll env s)) =
           [(''j1'', [''j1'']), (''j3'', [''j1'', ''j3''])]"
    and "maxConcurrentJobs s = 2"
  by (simp_all add: s_def cfg_def env_def poll_def requestJob_def isHealthy_def interfere_def
      Bridge_start_def Bridge_new_def HealthMonitor_new_def HealthMonitor_start_def or_default_def
      cfg_field_def isSupported_def SUPPORTED_TYPES_def client_def acceptJob_def res_ok_def
      admit_def RunnerClient_new_def Let_def)


theorem poll_admission_within_limit_witness:
  "let cfg = \<lparr> cfg_runnerToken = Some ''rt'', cfg_maxConcurrentJobs = 2, cfg_timeoutMs = None,
          cfg_supernovao = \<lparr> storage = None, cfg_bitrate = None, cfg_level = None,
                             segmentTimeoutMs = None \<rparr> \<rparr>;
       s = projr (Bridge_start cfg (Bridge_new cfg));
       env = \<lparr> requestJobResult = RequestOk (Some
            [\<lparr> j_uuid = ''j1'', j_type = ''vod-web-video-transcoding'',
               j_payload = \<lparr> p_input = None, p_output = None \<rparr> \<rparr>,
             \<lparr> j_uuid = ''j2'', j_type = ''live-rtmp-hls-transcoding'',
               j_payload = \<lparr> p_input = None, p_output = None \<rparr> \<rparr>,
             \<lparr> j_uuid = ''j3'', j_type = ''vod-hls-transcoding'',
               j_payload = \<lparr> p_input = None, p_output = None \<rparr> \<rparr>,
             \<lparr> j_uuid = ''j4'', j_type = ''vod-hls-transcoding'',
               j_payload = \<lparr> p_input = None, p_output = None \<rparr> \<rparr>]),
          duringRequest = [], acceptResult = (\<lambda>i. FetchResponse 200 ''tok''),
          duringAccept = (\<lambda>i. []) \<rparr>
   in \<not> isRunning (s\<lparr> isRunning := False \<rparr>) \<and>
      poll env (s\<lparr> isRunning := False \<rparr>) = ([], s\<lparr> isRunning := False \<rparr>) \<and>
      map (\<lambda>(job, t). (j_uuid job, map fst (activeJobs t))) (fst (poll env s)) =
        [(''j1'', [''j1'']), (''j3'', [''j1'', ''j3''])] \<and>
      withinLimit 2 (fst (poll env s)) \<and>
      belowLimit 2 (butlast (fst (poll env s))) \<and>
      subseq (map fst (fst (poll env s))) (offered env)"
proof -
  define cfg where "cfg = \<lparr> cfg_runnerToken = Some ''rt'', cfg_maxConcurrentJobs = 2, cfg_timeoutMs = None,
          cfg_supernovao = \<lparr> storage = None, cfg_bitrate = None, cfg_level = None,
                             segmentTimeoutMs = None \<rparr> \<rparr>"
  define s where "s = projr (Bridge_start cfg (Bridge_new cfg))"
  define env where "env = \<lparr> requestJobResult = RequestOk (Some
            [\<lparr> j_uuid = ''j1'', j_type = ''vod-web-video-transcoding'',
               j_payload = \<lparr> p_input = None, p_output = None \<rparr> \<rparr>,
             \<lparr> j_uuid = ''j2'', j_type = ''live-rtmp-hls-transcoding'',
               j_payload = \<lparr> p_input = None, p_output = None \<rparr> \<rparr>,
             \<lparr> j_uuid = ''j3'', j_type = ''vod-hls-transcoding'',
               j_payload = \<lparr> p_input = None, p_output = None \<rparr> \<rparr>,
             \<lparr> j_uuid = ''j4'', j_type = ''vod-hls-transcoding'',
               j_payload = \<lparr> p_input = None, p_output = None \<rparr> \<rparr>]),
          duringRequest = [], acceptResult = (\<lambda>i. FetchResponse 200 ''tok''),
          duringAccept = (\<lambda>i. []) \<rparr>"
  note ex = example_poll [folded cfg_def, folded s_def, folded env_def]
  have stopped: "\<not> isRunning (s\<lparr> isRunning := False \<rparr>)" by simp
  from poll_admission_within_limit [of "s\<lparr> isRunning := False \<rparr>" env] stopped
  have "poll env (s\<lparr> isRunning := False \<rparr>) = ([], s\<lparr> isRunning := False \<rparr>)" by blast
  with poll_admission_within_limit [of s env] ex stopped
  show ?thesis unfolding Let_def cfg_def [symmetric] s_def [symmetric] env_def [symmetric]
    by simp
qed

end
